theory Spec2Isabelle
  imports Complex_Main "HOL-Library.AList" "HOL-Library.List_Lexorder" "HOL-Library.Char_ord"
begin

section \<open>Data model (types.ts)\<close>

text \<open>
  Strings are compared as JavaScript compares them with \<^verbatim>\<open><=\<close>: lexicographically by
  character code, which is the order of \<^typ>\<open>string\<close> given by the two library theories
  imported above. Optional fields of an interface are \<^typ>\<open>'a option\<close>, \<open>None\<close> for
  \<^verbatim>\<open>undefined\<close>.
\<close>

record DataPoint =
  date :: string
  sku :: string
  category :: string
  quantity :: real

record ForecastPoint =
  date :: string
  historical :: "real option"
  forecast :: real
  lowerBound :: "real option"
  upperBound :: "real option"
  isForecast :: bool
  projectedInventory :: "real option"
  safetyStock :: "real option"
  reorderPoint :: "real option"
  scenarioForecast :: "real option"
  offsetDate :: "string option"
  incomingProduction :: "real option"
  projectedRevenue :: "real option"
  projectedMargin :: "real option"
  inventoryValue :: "real option"
  stickyNote :: "string option"
  marketDisruption :: "string option"

datatype ForecastMethodology = HOLT_WINTERS | PROPHET | ARIMA | LINEAR | AGGREGATE_ALLOCATE

datatype HWMethod = additive | multiplicative

record MarketShock =
  shock_id :: string
  month :: string
  description :: string
  percentageChange :: real

text \<open>The exception a JavaScript \<^verbatim>\<open>Date\<close> raises when an invalid date is printed.\<close>

datatype error = RangeError

section \<open>Numbers\<close>

text \<open>
  The program is TypeScript; its numbers are modelled as real numbers, so the rounding,
  overflow and NaN of IEEE doubles are outside this development. The operators of the
  source that behave differently from their HOL namesakes are written out below.
\<close>

text \<open>\<^verbatim>\<open>Math.round(x)\<close>: the nearest integer, halves rounded towards plus infinity.\<close>

definition Math_round :: "real \<Rightarrow> real" where
  "Math_round x = of_int \<lfloor>x + 1 / 2\<rfloor>"

text \<open>\<^verbatim>\<open>x || d\<close> on numbers: \<open>d\<close> replaces a falsy \<open>x\<close>, which for a number is zero.\<close>

definition or_else :: "real \<Rightarrow> real \<Rightarrow> real" where
  "or_else x d = (if x = 0 then d else x)"

text \<open>\<^verbatim>\<open>values.reduce((a, b) => a + b, 0)\<close>\<close>

definition total :: "real list \<Rightarrow> real" where
  "total values = foldl (+) 0 values"

section \<open>Statistics helpers (utils/forecasting.ts)\<close>

definition getStdDev :: "real list \<Rightarrow> real" where
  "getStdDev values =
     (let n = length values in
      if n = 0 then 0
      else let mean = total values / real n in
        sqrt (foldl (\<lambda>sq x. sq + (x - mean) ^ 2) 0 values / real n))"

definition getZMultiplier :: "real \<Rightarrow> real" where
  "getZMultiplier conf =
     (if conf \<ge> 99 then 2.576
      else if conf \<ge> 95 then 1.96
      else if conf \<ge> 90 then 1.645
      else if conf \<ge> 85 then 1.44
      else if conf \<ge> 80 then 1.28
      else 1.96)"

section \<open>Strings and calendar dates\<close>

text \<open>
  A JavaScript \<^verbatim>\<open>Date\<close> is modelled in the UTC time zone, where its local fields and
  its ISO string agree. Every date the program builds lies at midnight, so a valid date
  is a calendar day \<open>(year, month, day)\<close> with the month counted from 1, and
  \<open>None\<close> is the invalid date. \<^verbatim>\<open>new Date(string)\<close> reads the ISO calendar
  forms \<^verbatim>\<open>YYYY-MM-DD\<close>, \<^verbatim>\<open>YYYY-MM\<close> and the expanded years that
  \<^verbatim>\<open>toISOString\<close> prints; every other string is an invalid date, and so is a day
  past the end of its month, as the language standard has it. These are the forms the
  application normalises its dates to (\<^verbatim>\<open>parseDate\<close> in \<^verbatim>\<open>App.tsx\<close>).
\<close>

type_synonym civil = "int \<times> int \<times> int"

definition isDigit :: "char \<Rightarrow> bool" where
  "isDigit c = (CHR ''0'' \<le> c \<and> c \<le> CHR ''9'')"

definition digitVal :: "char \<Rightarrow> nat" where
  "digitVal c = of_char c - 48"

definition digitsVal :: "string \<Rightarrow> nat" where
  "digitsVal s = foldl (\<lambda>a c. 10 * a + digitVal c) 0 s"

definition digitChar :: "nat \<Rightarrow> char" where
  "digitChar n = ''0123456789'' ! (n mod 10)"

function natToString :: "nat \<Rightarrow> string" where
  "natToString n = (if n < 10 then [digitChar n] else natToString (n div 10) @ [digitChar n])"
  by pat_completeness auto
termination
  by (relation "measure id") auto

definition intToString :: "int \<Rightarrow> string" where
  "intToString i = (if i < 0 then CHR ''-'' # natToString (nat (- i)) else natToString (nat i))"

text \<open>\<^verbatim>\<open>s.padStart(w, '0')\<close>\<close>

definition padStart :: "nat \<Rightarrow> string \<Rightarrow> string" where
  "padStart w s = replicate (w - length s) CHR ''0'' @ s"

definition isLeap :: "int \<Rightarrow> bool" where
  "isLeap y = (y mod 4 = 0 \<and> (y mod 100 \<noteq> 0 \<or> y mod 400 = 0))"

definition daysInMonth :: "int \<Rightarrow> int \<Rightarrow> int" where
  "daysInMonth y m =
     (if m = 2 then (if isLeap y then 29 else 28)
      else if m = 4 \<or> m = 6 \<or> m = 9 \<or> m = 11 then 30 else 31)"

text \<open>Days from 1970-01-01 to a calendar day of the proleptic Gregorian calendar.\<close>

definition daysFromCivil :: "civil \<Rightarrow> int" where
  "daysFromCivil c =
     (case c of (y, m, d) \<Rightarrow>
       let y' = (if m \<le> 2 then y - 1 else y);
           era = y' div 400;
           yoe = y' - era * 400;
           doy = (153 * (if m > 2 then m - 3 else m + 9) + 2) div 5 + d - 1;
           doe = yoe * 365 + yoe div 4 - yoe div 100 + doy
       in era * 146097 + doe - 719468)"

text \<open>\<^verbatim>\<open>getTime()\<close> of a valid date, in milliseconds.\<close>

definition getTime :: "civil \<Rightarrow> int" where
  "getTime c = 86400000 * daysFromCivil c"

text \<open>A time value further than 100 million days from the epoch is an invalid date.\<close>

definition timeClip :: "civil \<Rightarrow> civil option" where
  "timeClip c = (if \<bar>daysFromCivil c\<bar> \<le> 100000000 then Some c else None)"

definition mkCivil :: "int \<Rightarrow> string \<Rightarrow> string \<Rightarrow> civil option" where
  "mkCivil y ms ds =
     (let m = int (digitsVal ms); d = int (digitsVal ds) in
      if list_all isDigit (ms @ ds) \<and> 1 \<le> m \<and> m \<le> 12 \<and> 1 \<le> d \<and> d \<le> daysInMonth y m
      then timeClip (y, m, d) else None)"

definition expandedYear :: "char \<Rightarrow> string \<Rightarrow> int option" where
  "expandedYear sg ys =
     (if \<not> list_all isDigit ys then None
      else if sg = CHR ''+'' then Some (int (digitsVal ys))
      else if sg = CHR ''-'' \<and> digitsVal ys \<noteq> 0 then Some (- int (digitsVal ys))
      else None)"

text \<open>\<^verbatim>\<open>new Date(s)\<close> for a string \<open>s\<close>.\<close>

fun newDate :: "string \<Rightarrow> civil option" where
  "newDate [y1, y2, y3, y4, a, m1, m2, b, d1, d2] =
     (if list_all isDigit [y1, y2, y3, y4] \<and> a = CHR ''-'' \<and> b = CHR ''-''
      then mkCivil (int (digitsVal [y1, y2, y3, y4])) [m1, m2] [d1, d2] else None)"
| "newDate [y1, y2, y3, y4, a, m1, m2] =
     (if list_all isDigit [y1, y2, y3, y4] \<and> a = CHR ''-''
      then mkCivil (int (digitsVal [y1, y2, y3, y4])) [m1, m2] ''01'' else None)"
| "newDate [sg, y1, y2, y3, y4, y5, y6, a, m1, m2, b, d1, d2] =
     (if a = CHR ''-'' \<and> b = CHR ''-''
      then (case expandedYear sg [y1, y2, y3, y4, y5, y6] of
              None \<Rightarrow> None | Some y \<Rightarrow> mkCivil y [m1, m2] [d1, d2])
      else None)"
| "newDate _ = None"

text \<open>
  \<^verbatim>\<open>new Date(year, monthIndex, 1, 0, 0, 0, 0)\<close>: a month index outside 0..11 carries
  into the year, and a year from 0 to 99 means 1900 plus that year.
\<close>

definition newDateYM :: "int \<Rightarrow> int \<Rightarrow> civil option" where
  "newDateYM year monthIndex =
     (let y = (if 0 \<le> year \<and> year \<le> 99 then 1900 + year else year);
          t = y * 12 + monthIndex
      in timeClip (t div 12, t mod 12 + 1, 1))"

text \<open>\<^verbatim>\<open>d.setDate(1)\<close> followed by \<^verbatim>\<open>d.setMonth(d.getMonth() + step)\<close> on a copy.\<close>

definition setDate1 :: "civil option \<Rightarrow> civil option" where
  "setDate1 d = (case d of None \<Rightarrow> None | Some (y, m, _) \<Rightarrow> Some (y, m, 1))"

definition addMonths :: "civil option \<Rightarrow> nat \<Rightarrow> civil option" where
  "addMonths d step =
     (case d of None \<Rightarrow> None
      | Some (y, m, dd) \<Rightarrow>
          let t = y * 12 + (m - 1) + int step in timeClip (t div 12, t mod 12 + 1, dd))"

text \<open>
  \<^verbatim>\<open>d.toISOString().split('T')[0]\<close>: the date part of the ISO string; printing an
  invalid date raises \<open>RangeError\<close>.
\<close>

definition isoYear :: "int \<Rightarrow> string" where
  "isoYear y =
     (if 0 \<le> y \<and> y \<le> 9999 then padStart 4 (natToString (nat y))
      else if y < 0 then CHR ''-'' # padStart 6 (natToString (nat (- y)))
      else CHR ''+'' # padStart 6 (natToString (nat y)))"

definition toISODate :: "civil option \<Rightarrow> error + string" where
  "toISODate d =
     (case d of None \<Rightarrow> Inl RangeError
      | Some (y, m, dd) \<Rightarrow>
          Inr (isoYear y @ ''-'' @ padStart 2 (natToString (nat m)) @ ''-'' @
               padStart 2 (natToString (nat dd))))"

text \<open>\<^verbatim>\<open>s.split(c)\<close> for a one-character separator.\<close>

fun splitOn :: "char \<Rightarrow> string \<Rightarrow> string list" where
  "splitOn c [] = [[]]"
| "splitOn c (x # xs) =
     (if x = c then [] # splitOn c xs
      else (case splitOn c xs of [] \<Rightarrow> [[x]] | p # ps \<Rightarrow> (x # p) # ps))"

definition isSpace :: "char \<Rightarrow> bool" where
  "isSpace c = (c = CHR '' '' \<or> c = CHR 0x09 \<or> c = CHR 0x0A \<or> c = CHR 0x0B \<or>
                c = CHR 0x0C \<or> c = CHR 0x0D)"

text \<open>
  \<^verbatim>\<open>parseInt(s, 10)\<close>: leading white space, an optional sign, then the longest run of
  decimal digits; \<open>None\<close> is NaN. The call without a radix is modelled the same way.
\<close>

definition parseInt :: "string \<Rightarrow> int option" where
  "parseInt s =
     (let t = dropWhile isSpace s;
          neg = (t \<noteq> [] \<and> hd t = CHR ''-'');
          u = (if t \<noteq> [] \<and> (hd t = CHR ''-'' \<or> hd t = CHR ''+'') then tl t else t);
          ds = takeWhile isDigit u
      in if ds = [] then None
         else Some (if neg then - int (digitsVal ds) else int (digitsVal ds)))"

section \<open>Forecasting methods (utils/forecasting.ts)\<close>

text \<open>
  The loops of the source run over the indices of \<open>values\<close>; each is a \<open>fold\<close> over
  the list of indices that carries the variables the loop assigns. The methods are
  private to the module and are reached here from \<open>calculateForecast\<close> only, with at
  least three values, so every index read below is in range and no divisor is 0.
\<close>

text \<open>
  The sums \<open>(sumX, sumY, sumXY, sumXX)\<close> of the regression loop, which
  \<open>detectHWMethod\<close> and \<open>runLinear\<close> both contain.
\<close>

definition regressionSums :: "real list \<Rightarrow> real \<times> real \<times> real \<times> real" where
  "regressionSums values =
     fold (\<lambda>i (sumX, sumY, sumXY, sumXX).
             (sumX + real i, sumY + values ! i, sumXY + real i * values ! i,
              sumXX + real i * real i))
       [0..<length values] (0, 0, 0, 0)"

definition detectHWMethod :: "real list \<Rightarrow> HWMethod" where
  "detectHWMethod values =
     (if length values < 4 then multiplicative
      else
        let n = length values;
            mean = total values / real n;
            stdDev = getStdDev values;
            cv = (if mean > 0 then stdDev / mean else 0);
            earlyDataSize = nat \<lceil>real n * 0.25\<rceil>;
            earlyValues = take earlyDataSize values;
            lowValueThreshold = mean * 0.2;
            sparseCount = length (filter (\<lambda>v. v = 0 \<or> v < lowValueThreshold) earlyValues);
            earlySparsity =
              (if length earlyValues > 0 then real sparseCount / real (length earlyValues)
               else 0)
        in case regressionSums values of (sumX, sumY, sumXY, sumXX) \<Rightarrow>
          let slope = (real n * sumXY - sumX * sumY) / (real n * sumXX - sumX * sumX);
              trendStrength = \<bar>slope\<bar> / (if mean > 0 then mean else 1)
          in if cv > 0.5 \<or> earlySparsity > 0.4 \<or> trendStrength > 0.05 then additive
             else multiplicative)"

text \<open>
  The smoothing loop of \<open>runHoltWintersAdditive\<close>, from the initial seasonal
  indices to the final \<open>(level, trend, seasonal)\<close>.
\<close>

definition hwAdditiveSmooth :: "real list \<Rightarrow> nat \<Rightarrow> real \<times> real \<times> real list" where
  "hwAdditiveSmooth values L =
     (let alpha = 0.3; beta = 0.1; gamma = 0.05;
          n = length values;
          level0 = or_else (total values / real n) 1;
          seasonal0 = fold (\<lambda>i seasonal. seasonal[i := values ! i - level0])
                        [0..<min L n] (replicate L 0)
      in fold (\<lambda>i (level, trend, seasonal).
                 let v = values ! i;
                     prevLevel = level;
                     level' = alpha * (v - seasonal ! (i mod L)) + (1 - alpha) * (level + trend);
                     trend' = beta * (level' - prevLevel) + (1 - beta) * trend
                 in (level', trend',
                     seasonal[i mod L :=
                       gamma * (v - level') + (1 - gamma) * seasonal ! (i mod L)]))
           [0..<n] (level0, 0, seasonal0))"

definition runHoltWintersAdditive :: "real list \<Rightarrow> nat \<Rightarrow> nat \<Rightarrow> real list" where
  "runHoltWintersAdditive values horizon L =
     (case hwAdditiveSmooth values L of (level, trend, seasonal) \<Rightarrow>
        map (\<lambda>i. max 0 (level + real i * trend + seasonal ! ((length values + i - 1) mod L)))
          [1..<Suc horizon])"

text \<open>The smoothing loop of \<open>runHoltWintersMultiplicative\<close>.\<close>

definition hwMultiplicativeSmooth :: "real list \<Rightarrow> nat \<Rightarrow> real \<times> real \<times> real list" where
  "hwMultiplicativeSmooth values L =
     (let alpha = 0.3; beta = 0.1; gamma = 0.05;
          n = length values;
          initPeriod = min L n;
          level0 = or_else (total (take initPeriod values) / real initPeriod) 1;
          trend0 = or_else ((values ! (min (L - 1) (n - 1)) - values ! 0) /
                            real (min L (n - 1))) 0;
          seasonal0 = fold (\<lambda>i seasonal. seasonal[i := values ! i / level0])
                        [0..<initPeriod] (replicate L 1)
      in fold (\<lambda>i (level, trend, seasonal).
                 let v = values ! i;
                     prevLevel = level;
                     level' = alpha * (v / or_else (seasonal ! (i mod L)) 1) +
                              (1 - alpha) * (level + trend);
                     trend' = beta * (level' - prevLevel) + (1 - beta) * trend
                 in (level', trend',
                     seasonal[i mod L :=
                       gamma * (v / or_else level' 1) + (1 - gamma) * seasonal ! (i mod L)]))
           [0..<n] (level0, trend0, seasonal0))"

definition runHoltWintersMultiplicative :: "real list \<Rightarrow> nat \<Rightarrow> nat \<Rightarrow> real list" where
  "runHoltWintersMultiplicative values horizon L =
     (case hwMultiplicativeSmooth values L of (level, trend, seasonal) \<Rightarrow>
        map (\<lambda>i. max 0 ((level + real i * trend) * seasonal ! ((length values + i - 1) mod L)))
          [1..<Suc horizon])"

definition runHoltWinters :: "real list \<Rightarrow> nat \<Rightarrow> nat \<Rightarrow> HWMethod \<Rightarrow> real list" where
  "runHoltWinters values horizon L method =
     (if method = additive then runHoltWintersAdditive values horizon L
      else runHoltWintersMultiplicative values horizon L)"

definition runProphet :: "real list \<Rightarrow> nat \<Rightarrow> real list" where
  "runProphet values horizon =
     (let n = length values;
          L = 12;
          avgGrowth = (values ! (n - 1) - values ! 0) / real n;
          mean = total values / real n;
          seasonal1 = fold (\<lambda>i seasonal.
                         seasonal[i mod L := seasonal ! (i mod L) + (values ! i - mean)])
                        [0..<n] (replicate L 0);
          seasonal = map (\<lambda>x. x / of_int \<lceil>real n / real L\<rceil>) seasonal1
      in map (\<lambda>i. let seasonalBase = seasonal ! ((i - 1) mod 12);
                       simulatedVal = seasonalBase + mean + avgGrowth * 1.2 * real i
                   in max 0 (Math_round simulatedVal))
           [1..<Suc horizon])"

text \<open>
  The loop of \<open>runArima\<close> with \<open>k\<close> rounds left: each round moves
  \<open>currentVal\<close> towards the mean and pushes it, floored at 0.
\<close>

fun arimaLoop :: "real list \<Rightarrow> real \<Rightarrow> nat \<Rightarrow> real list" where
  "arimaLoop values currentVal 0 = []"
| "arimaLoop values currentVal (Suc k) =
     (let arCoefficient = 0.85;
          mean = total values / real (length values);
          currentVal' = mean + arCoefficient * (currentVal - mean)
      in max 0 currentVal' # arimaLoop values currentVal' k)"

definition runArima :: "real list \<Rightarrow> nat \<Rightarrow> real list" where
  "runArima values horizon = arimaLoop values (values ! (length values - 1)) horizon"

definition runLinear :: "real list \<Rightarrow> nat \<Rightarrow> real list" where
  "runLinear values horizon =
     (let n = length values in
      case regressionSums values of (sumX, sumY, sumXY, sumXX) \<Rightarrow>
        let slope = (real n * sumXY - sumX * sumY) / (real n * sumXX - sumX * sumX);
            intercept = (sumY - slope * sumX) / real n
        in map (\<lambda>i. max 0 (slope * (real n + real i - 1) + intercept)) [1..<Suc horizon])"

section \<open>The forecast of one series\<close>

text \<open>A historical point of the result, \<^verbatim>\<open>{date, historical, forecast, isForecast}\<close>.\<close>

definition historicalPoint :: "string \<Rightarrow> DataPoint \<Rightarrow> ForecastPoint" where
  "historicalPoint trainingDataEndDate d =
     \<lparr>date = DataPoint.date d, historical = Some (quantity d), forecast = quantity d,
      lowerBound = None, upperBound = None,
      isForecast = (DataPoint.date d > trainingDataEndDate),
      projectedInventory = None, safetyStock = None, reorderPoint = None,
      scenarioForecast = None, offsetDate = None, incomingProduction = None,
      projectedRevenue = None, projectedMargin = None, inventoryValue = None,
      stickyNote = None, marketDisruption = None\<rparr>"

text \<open>
  A forecast point of the result,
  \<^verbatim>\<open>{date, forecast, lowerBound, upperBound, isForecast: true}\<close>.
\<close>

definition forecastEntry :: "string \<Rightarrow> real \<Rightarrow> real \<Rightarrow> real \<Rightarrow> ForecastPoint" where
  "forecastEntry d f lower upper =
     \<lparr>date = d, historical = None, forecast = f,
      lowerBound = Some lower, upperBound = Some upper, isForecast = True,
      projectedInventory = None, safetyStock = None, reorderPoint = None,
      scenarioForecast = None, offsetDate = None, incomingProduction = None,
      projectedRevenue = None, projectedMargin = None, inventoryValue = None,
      stickyNote = None, marketDisruption = None\<rparr>"

text \<open>
  \<open>normalizedDate\<close> of the loop body: the first day of the month \<open>step\<close>
  months after \<open>lastDate\<close>, or the exception raised by \<^verbatim>\<open>toISOString\<close>.
\<close>

definition normalizedDate :: "civil option \<Rightarrow> nat \<Rightarrow> error + string" where
  "normalizedDate lastDate step =
     (let forecastDate = addMonths lastDate step
      in case toISODate forecastDate of
           Inl e \<Rightarrow> Inl e
         | Inr isoString \<Rightarrow> Inr (take 7 isoString @ ''-01''))"

text \<open>
  One round of the \<^verbatim>\<open>forecastValues.forEach\<close> loop: the point pushed for the value
  \<open>val\<close> at index \<open>i\<close>, or the exception.
\<close>

definition forecastPoint ::
  "civil option \<Rightarrow> real \<Rightarrow> real \<Rightarrow> real \<Rightarrow> nat \<Rightarrow> error + ForecastPoint" where
  "forecastPoint lastDate multiplier stdDev val i =
     (let step = i + 1;
          uncertainty = multiplier * stdDev * sqrt (real step) * 0.4
      in case normalizedDate lastDate step of
           Inl e \<Rightarrow> Inl e
         | Inr d \<Rightarrow>
             Inr (forecastEntry d (Math_round val)
                    (max 0 (Math_round (val - uncertainty)))
                    (Math_round (val + uncertainty))))"

text \<open>The whole loop: the first exception ends it.\<close>

fun forecastPoints ::
  "civil option \<Rightarrow> real \<Rightarrow> real \<Rightarrow> nat \<Rightarrow> real list \<Rightarrow> error + ForecastPoint list" where
  "forecastPoints lastDate multiplier stdDev i [] = Inr []"
| "forecastPoints lastDate multiplier stdDev i (val # vals) =
     (case forecastPoint lastDate multiplier stdDev val i of
        Inl e \<Rightarrow> Inl e
      | Inr p \<Rightarrow>
          (case forecastPoints lastDate multiplier stdDev (Suc i) vals of
             Inl e \<Rightarrow> Inl e
           | Inr ps \<Rightarrow> Inr (p # ps)))"

text \<open>
  Two parts of the body of \<open>calculateForecast\<close>, named as its local variables are:
  the training data (the points dated on or before the cutoff), and the values the
  selected method forecasts from the training values.
\<close>

definition trainingData :: "DataPoint list \<Rightarrow> string \<Rightarrow> DataPoint list" where
  "trainingData historicalData trainingDataEndDate =
     filter (\<lambda>d. DataPoint.date d \<le> trainingDataEndDate) historicalData"

definition forecastValues ::
  "real list \<Rightarrow> nat \<Rightarrow> ForecastMethodology \<Rightarrow> HWMethod \<Rightarrow> bool \<Rightarrow> real list" where
  "forecastValues values horizon method hwMethod autoDetectHW =
     (let L = 12;
          effectiveHWMethod =
            (if method = HOLT_WINTERS \<and> autoDetectHW then detectHWMethod values
             else hwMethod)
      in case method of
           LINEAR \<Rightarrow> runLinear values horizon
         | PROPHET \<Rightarrow> runProphet values horizon
         | ARIMA \<Rightarrow> runArima values horizon
         | _ \<Rightarrow> runHoltWinters values horizon L effectiveHWMethod)"

text \<open>
  \<open>calculateForecast\<close>. Its parameter \<^verbatim>\<open>interval\<close> has the single value
  \<^verbatim>\<open>'monthly'\<close> and is never read, so the model leaves it out.
\<close>

definition calculateForecast ::
  "DataPoint list \<Rightarrow> nat \<Rightarrow> string \<Rightarrow> real \<Rightarrow> ForecastMethodology \<Rightarrow> HWMethod \<Rightarrow> bool \<Rightarrow>
   error + ForecastPoint list" where
  "calculateForecast historicalData horizon trainingDataEndDate confidenceLevel method
     hwMethod autoDetectHW =
     (if length historicalData < 3 \<or> trainingDataEndDate = [] then Inr []
      else if length (trainingData historicalData trainingDataEndDate) < 3 then Inr []
      else
        let values = map quantity (trainingData historicalData trainingDataEndDate);
            results = map (historicalPoint trainingDataEndDate) historicalData;
            multiplier = getZMultiplier confidenceLevel;
            stdDev = getStdDev values;
            lastDate = setDate1 (newDate trainingDataEndDate)
        in case forecastPoints lastDate multiplier stdDev 0
                  (forecastValues values horizon method hwMethod autoDetectHW) of
             Inl e \<Rightarrow> Inl e
           | Inr ps \<Rightarrow> Inr (results @ ps))"

section \<open>Market shocks (utils/forecasting.ts)\<close>

text \<open>
  \<^verbatim>\<open>x ? Math.round(x * multiplier) : undefined\<close> for an optional number \<open>x\<close>:
  the test is JavaScript truthiness, which an absent field fails and which the number 0
  fails too.
\<close>

definition scaleIfTruthy :: "real \<Rightarrow> real option \<Rightarrow> real option" where
  "scaleIfTruthy multiplier x =
     (case x of
        None \<Rightarrow> None
      | Some v \<Rightarrow> if v = 0 then None else Some (Math_round (v * multiplier)))"

text \<open>The function mapped over the points by \<open>applyMarketShocks\<close>.\<close>

definition applyShock :: "MarketShock list \<Rightarrow> ForecastPoint \<Rightarrow> ForecastPoint" where
  "applyShock shocks point =
     (case find (\<lambda>s. month s = take 7 (date point)) shocks of
        None \<Rightarrow> point
      | Some shock \<Rightarrow>
          if isForecast point then
            let multiplier = 1 + percentageChange shock / 100
            in point\<lparr>forecast := Math_round (forecast point * multiplier),
                     scenarioForecast := scaleIfTruthy multiplier (scenarioForecast point),
                     projectedInventory := scaleIfTruthy multiplier (projectedInventory point),
                     projectedRevenue := scaleIfTruthy multiplier (projectedRevenue point),
                     projectedMargin := scaleIfTruthy multiplier (projectedMargin point)\<rparr>
          else point)"

definition applyMarketShocks :: "ForecastPoint list \<Rightarrow> MarketShock list \<Rightarrow> ForecastPoint list" where
  "applyMarketShocks points shocks =
     (if shocks = [] then points else map (applyShock shocks) points)"

section \<open>Volatility ranking (App.tsx)\<close>

text \<open>A row of \<^verbatim>\<open>skuLevelData\<close> and an entry of \<^verbatim>\<open>volatilityResults\<close>.\<close>

record SkuRow =
  sku :: string
  historicalVolume :: real
  forecastedVolume :: real
  historicalMonthly :: "real list"
  forecastedMonthly :: "real list"

record VolatilityResult =
  sku :: string
  volatility :: real
  avgQuantity :: real
  stdDev :: real


text \<open>
  The entry computed for one row from its window of quantities: the body of the
  \<^verbatim>\<open>forEach\<close> of \<^verbatim>\<open>volatilityResults\<close> (the window is
  \<^verbatim>\<open>historicalMonthly\<close>) and of \<^verbatim>\<open>forecastVolatilityResults\<close> (the window is
  \<^verbatim>\<open>forecastedMonthly\<close>). It is reached with a non-empty window only.
\<close>

definition volatilityEntry :: "string \<Rightarrow> real list \<Rightarrow> VolatilityResult" where
  "volatilityEntry s quantities =
     (let avg = total quantities / real (length quantities);
          variance = foldl (\<lambda>sum q. sum + (q - avg) ^ 2) 0 quantities /
                     real (length quantities);
          stdDev = sqrt variance;
          cv = (if avg > 0 then stdDev / avg * 100 else 0)
      in \<lparr>VolatilityResult.sku = s, volatility = cv, avgQuantity = avg, stdDev = stdDev\<rparr>)"

text \<open>
  The two memos differ in the window only. \<^verbatim>\<open>matchesCategory\<close> is
  \<^verbatim>\<open>... || true\<close> in the source, so only the SKU filter is left. The step below is
  the body of the \<^verbatim>\<open>forEach\<close>. The entries are
  kept in a \<^verbatim>\<open>Map\<close> keyed by SKU, whose order is the order of first insertion, and
  are then sorted by descending volatility with the stable \<^verbatim>\<open>Array.sort\<close>.
\<close>

definition volatilityStep ::
  "(SkuRow \<Rightarrow> real list) \<Rightarrow> string list \<Rightarrow> SkuRow \<Rightarrow> (string \<times> VolatilityResult) list \<Rightarrow>
   (string \<times> VolatilityResult) list" where
  "volatilityStep window filterSkus item skuVolatility =
     (let matchesSku = (filterSkus = [] \<or> SkuRow.sku item \<in> set filterSkus)
      in if matchesSku \<and> length (window item) > 0
         then AList.update (SkuRow.sku item)
                (volatilityEntry (SkuRow.sku item) (window item)) skuVolatility
         else skuVolatility)"

definition volatilityOver ::
  "(SkuRow \<Rightarrow> real list) \<Rightarrow> string list \<Rightarrow> SkuRow list \<Rightarrow> VolatilityResult list" where
  "volatilityOver window filterSkus skuLevelData =
     sort_key (\<lambda>r. - volatility r)
       (map snd (fold (volatilityStep window filterSkus) skuLevelData []))"


definition forecastVolatilityResults :: "string list \<Rightarrow> SkuRow list \<Rightarrow> VolatilityResult list" where
  "forecastVolatilityResults = volatilityOver forecastedMonthly"


section \<open>Classifier (ABC / Pareto)\<close>








section \<open>Backtest (App.tsx, \<^verbatim>\<open>backtestResults\<close>)\<close>

text \<open>
  The settings the memo reads from the component state. \<open>marketAdj\<close> is the
  multiplier of the market adjustment, \<open>None\<close> when there is none.
\<close>

record BacktestSettings =
  confidenceLevel :: real
  hwMethod :: HWMethod
  autoDetectHW :: bool
  includeExternalTrends :: bool
  marketAdj :: "real option"

text \<open>The entry of one method of one SKU, \<^verbatim>\<open>{dates, forecasts, actuals}\<close>.\<close>

record MethodData =
  dates :: "string list"
  forecasts :: "real list"
  actuals :: "real list"

record Metrics =
  accuracy :: real
  mape :: real
  rmse :: real
  bias :: real

text \<open>
  The part of the result of \<^verbatim>\<open>backtestResults\<close> that the per-method scoring
  makes: the forecasts per SKU and method, the test window, and the metrics per method.
  The two \<^verbatim>\<open>Map\<close>s are association lists in insertion order. The aggregate of
  the selected method, the chart data and the quality-page metrics are computed after
  these from the same forecasts and are left out.
\<close>

record BacktestResult =
  skuMethodForecasts :: "(string \<times> (ForecastMethodology \<times> MethodData) list) list"
  testWindowStart :: string
  testWindowEnd :: string
  methodMetrics :: "(ForecastMethodology \<times> Metrics) list"

definition emptyResult :: "string \<Rightarrow> string \<Rightarrow> BacktestResult" where
  "emptyResult startDate endDate =
     \<lparr>skuMethodForecasts = [], testWindowStart = startDate, testWindowEnd = endDate,
      methodMetrics = []\<rparr>"

text \<open>\<open>normalizeDateFormat\<close> on a string: year and month, with the day set to 01.\<close>

definition normalizeDateFormat :: "string \<Rightarrow> string" where
  "normalizeDateFormat dateStr =
     (if dateStr = [] then []
      else case splitOn CHR ''-'' dateStr of
             p0 # p1 # _ \<Rightarrow>
               (case (parseInt p0, parseInt p1) of
                  (Some y, Some m) \<Rightarrow>
                    intToString y @ ''-'' @ padStart 2 (intToString m) @ ''-01''
                | _ \<Rightarrow> [])
           | _ \<Rightarrow> [])"

text \<open>\<^verbatim>\<open>new Date(s).getTime()\<close>; \<open>None\<close> is NaN, which every comparison rejects.\<close>

definition timeOf :: "string \<Rightarrow> int option" where
  "timeOf s = map_option getTime (newDate s)"

definition timeLess :: "int option \<Rightarrow> int option \<Rightarrow> bool" where
  "timeLess a b = (case (a, b) of (Some x, Some y) \<Rightarrow> x < y | _ \<Rightarrow> False)"

definition timeLessEq :: "int option \<Rightarrow> int option \<Rightarrow> bool" where
  "timeLessEq a b = (case (a, b) of (Some x, Some y) \<Rightarrow> x \<le> y | _ \<Rightarrow> False)"

text \<open>
  The test period \<open>(testStartStr, testEndStr)\<close> computed from
  \<open>forecastStartMonth\<close>: the first of the month 12 months and 1 month before it.
  An unreadable year or month makes an invalid date, and printing it raises.
\<close>

definition testWindow :: "string \<Rightarrow> error + (string \<times> string)" where
  "testWindow forecastStartMonth =
     (let parts = splitOn CHR ''-'' (take 7 forecastStartMonth);
          forecastYear = (case parts of y # _ \<Rightarrow> parseInt y | _ \<Rightarrow> None);
          forecastMonth = (case parts of _ # m # _ \<Rightarrow> parseInt m | _ \<Rightarrow> None)
      in case (forecastYear, forecastMonth) of
           (Some y, Some m) \<Rightarrow>
             (case toISODate (newDateYM y (m - 1 - 1)) of
                Inl e \<Rightarrow> Inl e
              | Inr testEndStr \<Rightarrow>
                  (case toISODate (newDateYM y (m - 1 - 12)) of
                     Inl e \<Rightarrow> Inl e
                   | Inr testStartStr \<Rightarrow>
                       (case toISODate (newDateYM y (m - 1)) of
                          Inl e \<Rightarrow> Inl e
                        | Inr _ \<Rightarrow> Inr (testStartStr, testEndStr))))
         | _ \<Rightarrow> Inl RangeError)"

definition testStartTime :: "string \<times> string \<Rightarrow> int option" where
  "testStartTime w = timeOf (fst w)"

definition testEndTime :: "string \<times> string \<Rightarrow> int option" where
  "testEndTime w = map_option (\<lambda>t. t + 24 * 60 * 60 * 1000) (timeOf (snd w))"

text \<open>
  The data of one SKU in date order, and its training data: the points before the
  start of the test period. \<^verbatim>\<open>localeCompare\<close> is modelled as the order of the
  character codes, which is the order of ISO dates; \<^verbatim>\<open>Array.sort\<close> is stable.
\<close>

definition skuDataOf :: "DataPoint list \<Rightarrow> string \<Rightarrow> DataPoint list" where
  "skuDataOf dat s = sort_key DataPoint.date (filter (\<lambda>d. DataPoint.sku d = s) dat)"

definition trainDataOf :: "string \<times> string \<Rightarrow> DataPoint list \<Rightarrow> DataPoint list" where
  "trainDataOf w skuData =
     filter (\<lambda>d. timeLess (timeOf (DataPoint.date d)) (testStartTime w)) skuData"

text \<open>The market adjustment of a forecast, applied when it is switched on and present.\<close>

definition applyMarketAdj :: "BacktestSettings \<Rightarrow> ForecastPoint list \<Rightarrow> ForecastPoint list" where
  "applyMarketAdj st fc =
     (case marketAdj st of
        Some multiplier \<Rightarrow>
          if includeExternalTrends st
          then map (\<lambda>p. if isForecast p then p\<lparr>forecast := Math_round (forecast p * multiplier)\<rparr>
                         else p) fc
          else fc
      | None \<Rightarrow> fc)"

text \<open>
  The entry of one method from its forecast: the dates and values of the forecast
  points, and for each date the quantity of the first point of the SKU in the same
  month, 0 when there is none.
\<close>

definition methodDataOf :: "DataPoint list \<Rightarrow> ForecastPoint list \<Rightarrow> MethodData" where
  "methodDataOf skuData fc =
     (let forecastDates = map date (filter isForecast fc);
          forecastVals = map forecast (filter isForecast fc);
          actualVals =
            map (\<lambda>fDate.
                   let normalized = normalizeDateFormat fDate
                   in case find (\<lambda>d. normalizeDateFormat (DataPoint.date d) = normalized) skuData of
                        Some match \<Rightarrow> quantity match
                      | None \<Rightarrow> 0)
              forecastDates
      in \<lparr>dates = forecastDates, forecasts = forecastVals, actuals = actualVals\<rparr>)"

text \<open>The four methods, one after the other; an exception of a forecast ends the loop.\<close>

fun methodEntries ::
  "BacktestSettings \<Rightarrow> DataPoint list \<Rightarrow> DataPoint list \<Rightarrow> ForecastMethodology list \<Rightarrow>
   error + (ForecastMethodology \<times> MethodData) list" where
  "methodEntries st skuData trainData [] = Inr []"
| "methodEntries st skuData trainData (method # methods) =
     (let trainEndDate = DataPoint.date (trainData ! (length trainData - 1))
      in case calculateForecast trainData 13 trainEndDate (confidenceLevel st) method
                (hwMethod st) (autoDetectHW st) of
           Inl e \<Rightarrow> Inl e
         | Inr fc \<Rightarrow>
             (case methodEntries st skuData trainData methods of
                Inl e \<Rightarrow> Inl e
              | Inr rest \<Rightarrow>
                  Inr ((method, methodDataOf skuData (applyMarketAdj st fc)) # rest)))"

definition allMethods :: "ForecastMethodology list" where
  "allMethods = [HOLT_WINTERS, PROPHET, ARIMA, LINEAR]"

text \<open>
  The body of the loop over the SKUs for one SKU: \<open>Inr None\<close> when the SKU is
  skipped (the two early returns), its entries otherwise, or the exception.
\<close>

definition skuBacktest ::
  "BacktestSettings \<Rightarrow> DataPoint list \<Rightarrow> string \<times> string \<Rightarrow> string \<Rightarrow>
   error + (ForecastMethodology \<times> MethodData) list option" where
  "skuBacktest st dat w s =
     (let skuData = skuDataOf dat s
      in if length skuData < 18 then Inr None
         else
           let trainData = trainDataOf w skuData
           in if length trainData < 6 then Inr None
              else case methodEntries st skuData trainData allMethods of
                     Inl e \<Rightarrow> Inl e
                   | Inr skuMethods \<Rightarrow> Inr (Some skuMethods))"

text \<open>Phase 1: the loop over the SKUs, filling \<open>skuMethodForecasts\<close>.\<close>

fun phase1 ::
  "BacktestSettings \<Rightarrow> DataPoint list \<Rightarrow> string \<times> string \<Rightarrow> string list \<Rightarrow>
   (string \<times> (ForecastMethodology \<times> MethodData) list) list \<Rightarrow>
   error + (string \<times> (ForecastMethodology \<times> MethodData) list) list" where
  "phase1 st dat w [] acc = Inr acc"
| "phase1 st dat w (s # rest) acc =
     (case skuBacktest st dat w s of
        Inl e \<Rightarrow> Inl e
      | Inr None \<Rightarrow> phase1 st dat w rest acc
      | Inr (Some skuMethods) \<Rightarrow> phase1 st dat w rest (AList.update s skuMethods acc))"

text \<open>
  Phase 2, the slice of one entry: the pairs \<open>(actual, forecast)\<close> of the dates
  \<open>dt\<close> with \<^verbatim>\<open>dt >= testStartTime && dt <= testEndTime\<close>. The three lists of
  an entry have one length.
\<close>

definition inTestWindow :: "string \<times> string \<Rightarrow> string \<Rightarrow> bool" where
  "inTestWindow w d =
     (timeLessEq (testStartTime w) (timeOf d) \<and> timeLessEq (timeOf d) (testEndTime w))"

definition slicePairs :: "string \<times> string \<Rightarrow> MethodData \<Rightarrow> (real \<times> real) list" where
  "slicePairs w methodData =
     map snd (filter (\<lambda>(d, pair). inTestWindow w d)
                (zip (dates methodData) (zip (actuals methodData) (forecasts methodData))))"

text \<open>\<open>(methodActuals, methodForecasts)\<close> of a method, as a list of pairs.\<close>

definition methodPairs ::
  "string \<times> string \<Rightarrow> (string \<times> (ForecastMethodology \<times> MethodData) list) list \<Rightarrow>
   ForecastMethodology \<Rightarrow> (real \<times> real) list" where
  "methodPairs w smf method =
     concat (map (\<lambda>(s, skuMethods).
                    case map_of skuMethods method of
                      None \<Rightarrow> []
                    | Some methodData \<Rightarrow> slicePairs w methodData)
               smf)"

definition metricsOf :: "(real \<times> real) list \<Rightarrow> Metrics" where
  "metricsOf pairs =
     (let methodTotal = total (map fst pairs);
          methodForecastTotal = total (map snd pairs);
          wMAPENum = foldl (\<lambda>n (actual, fcst). n + \<bar>actual - fcst\<bar>) 0 pairs;
          wMAPEDen = foldl (\<lambda>n (actual, fcst). n + \<bar>actual\<bar>) 0 pairs;
          mapeVal = (if wMAPEDen > 0 then wMAPENum / wMAPEDen * 100 else 0);
          sumSqErr = foldl (\<lambda>n (actual, fcst). n + (actual - fcst) ^ 2) 0 pairs;
          rmseVal = sqrt (sumSqErr / real (length pairs));
          accuracyVal =
            max 0 (min 100 ((1 - \<bar>methodTotal - methodForecastTotal\<bar> / max methodTotal 1) * 100));
          biasVal = (methodForecastTotal - methodTotal) / max methodTotal 1 * 100
      in \<lparr>accuracy = accuracyVal, mape = mapeVal, rmse = rmseVal, bias = biasVal\<rparr>)"

definition phase2 ::
  "string \<times> string \<Rightarrow> (string \<times> (ForecastMethodology \<times> MethodData) list) list \<Rightarrow>
   (ForecastMethodology \<times> Metrics) list" where
  "phase2 w smf =
     concat (map (\<lambda>method.
                    let pairs = methodPairs w smf method
                    in if length pairs > 0 then [(method, metricsOf pairs)] else [])
               allMethods)"

text \<open>
  The memo from the list of SKUs on. An exception anywhere is caught and gives the
  empty result of the \<^verbatim>\<open>catch\<close> block.
\<close>

definition backtestFor ::
  "BacktestSettings \<Rightarrow> DataPoint list \<Rightarrow> string \<Rightarrow> string list \<Rightarrow> BacktestResult" where
  "backtestFor st dat forecastStartMonth uniqueSkus =
     (if length uniqueSkus = 0 \<or> length dat < 18 then emptyResult [] []
      else case testWindow forecastStartMonth of
             Inl e \<Rightarrow> emptyResult [] []
           | Inr w \<Rightarrow>
               (case phase1 st dat w uniqueSkus [] of
                  Inl e \<Rightarrow> emptyResult [] []
                | Inr smf \<Rightarrow>
                    if length smf = 0 then emptyResult (fst w) (snd w)
                    else \<lparr>skuMethodForecasts = smf, testWindowStart = fst w,
                          testWindowEnd = snd w, methodMetrics = phase2 w smf\<rparr>))"

text \<open>
  \<open>backtestResults\<close>: the SKUs are those of the filter, or every SKU of the data
  in sorted order when the filter is empty.
\<close>

definition backtestResults ::
  "BacktestSettings \<Rightarrow> DataPoint list \<Rightarrow> string \<Rightarrow> string list \<Rightarrow> BacktestResult" where
  "backtestResults st dat forecastStartMonth filterSkus =
     backtestFor st dat forecastStartMonth
       (if length filterSkus > 0 then filterSkus else sort (remdups (map DataPoint.sku dat)))"

section \<open>Example inputs\<close>

definition examplePoint :: "string \<Rightarrow> real \<Rightarrow> DataPoint" where
  "examplePoint d q = \<lparr>DataPoint.date = d, sku = ''SKU-1'', category = ''c'', quantity = q\<rparr>"

definition exampleSeries :: "DataPoint list" where
  "exampleSeries =
     [examplePoint ''2024-01-01'' 1, examplePoint ''2024-02-01'' 3,
      examplePoint ''2024-03-01'' 1, examplePoint ''2024-04-01'' 3]"

text \<open>A forecast point for May 2024 whose projected inventory is exactly 0, and a shock
  of plus 10 percent in that month.\<close>

definition exampleShock :: MarketShock where
  "exampleShock =
     \<lparr>shock_id = ''shock-1'', month = ''2024-05'', description = ''promotion'',
      percentageChange = 10\<rparr>"

definition exampleDepleted :: ForecastPoint where
  "exampleDepleted = (forecastEntry ''2024-05-01'' 30 20 40)\<lparr>projectedInventory := Some 0\<rparr>"



text \<open>
  A history for the backtest: SKU-A with the 24 months of 2023 and 2024, SKU-B with
  the first 5 of them; the forecast starts in January 2025.
\<close>

definition exampleMonths :: "string list" where
  "exampleMonths =
     [''2023-01-01'', ''2023-02-01'', ''2023-03-01'', ''2023-04-01'',
      ''2023-05-01'', ''2023-06-01'', ''2023-07-01'', ''2023-08-01'',
      ''2023-09-01'', ''2023-10-01'', ''2023-11-01'', ''2023-12-01'',
      ''2024-01-01'', ''2024-02-01'', ''2024-03-01'', ''2024-04-01'',
      ''2024-05-01'', ''2024-06-01'', ''2024-07-01'', ''2024-08-01'',
      ''2024-09-01'', ''2024-10-01'', ''2024-11-01'', ''2024-12-01'']"

definition exampleSkuA :: "DataPoint list" where
  "exampleSkuA =
     map (\<lambda>(d, q). \<lparr>DataPoint.date = d, sku = ''SKU-A'', category = ''c'', quantity = q\<rparr>)
       (zip exampleMonths
          [20, 22, 25, 21, 24, 28, 30, 27, 26, 29, 31, 35,
           24, 26, 29, 25, 28, 33, 35, 31, 30, 34, 36, 40])"

definition exampleSkuB :: "DataPoint list" where
  "exampleSkuB =
     map (\<lambda>(d, q). \<lparr>DataPoint.date = d, sku = ''SKU-B'', category = ''c'', quantity = q\<rparr>)
       (zip exampleMonths [3, 4, 3, 5, 4])"

definition exampleHistory :: "DataPoint list" where
  "exampleHistory = exampleSkuB @ exampleSkuA"

definition exampleSettings :: BacktestSettings where
  "exampleSettings =
     \<lparr>confidenceLevel = 95, hwMethod = multiplicative, autoDetectHW = False,
      includeExternalTrends = False, marketAdj = None\<rparr>"

text \<open>The 13 months forecast from December 2023, and the test period of the example.\<close>

definition exampleForecastMonths :: "string list" where
  "exampleForecastMonths = drop 12 exampleMonths @ [''2025-01-01'']"

definition exampleWindow :: "string \<times> string" where
  "exampleWindow = (''2024-01-01'', ''2024-12-01'')"

section \<open>Properties of the statistics helpers\<close>

lemma Math_round_nonneg: "0 \<le> x \<Longrightarrow> 0 \<le> Math_round x"
  by (simp add: Math_round_def)

lemma foldl_add_nonneg:
  "(0::real) \<le> a \<Longrightarrow> (\<And>x. 0 \<le> f x) \<Longrightarrow> 0 \<le> foldl (\<lambda>s x. s + f x) a xs"
  by (induction xs arbitrary: a) simp_all

lemma getStdDev_nonneg: "0 \<le> getStdDev values"
  by (simp add: getStdDev_def Let_def foldl_add_nonneg)

lemma getZMultiplier_pos: "0 < getZMultiplier conf"
  by (simp add: getZMultiplier_def)

text \<open>
  Claim C9. \<open>getZMultiplier\<close> is defined for every confidence level and returns one of
  2.576, 1.96, 1.645, 1.44, 1.28; for every level below 80 it returns 1.96, the value
  of the 95 percent level.
\<close>

theorem getZMultiplier_range:
  "getZMultiplier conf \<in> {2.576, 1.96, 1.645, 1.44, 1.28} \<and>
   (conf < 80 \<longrightarrow> getZMultiplier conf = 1.96)"
  by (simp add: getZMultiplier_def)

theorem getZMultiplier_range_witness:
  "(50::real) < 80 \<and> getZMultiplier 50 = 1.96 \<and>
   getZMultiplier 50 \<in> {2.576, 1.96, 1.645, 1.44, 1.28}"
  using getZMultiplier_range [of 50] by simp


section \<open>The methods never forecast below zero\<close>

lemma runLinear_nonneg: "\<forall>v \<in> set (runLinear values horizon). 0 \<le> v"
  by (auto simp: runLinear_def Let_def split: prod.split)

lemma runProphet_nonneg: "\<forall>v \<in> set (runProphet values horizon). 0 \<le> v"
  by (simp add: runProphet_def Let_def)

lemma runHoltWintersAdditive_nonneg: "\<forall>v \<in> set (runHoltWintersAdditive values horizon L). 0 \<le> v"
  by (auto simp: runHoltWintersAdditive_def split: prod.split)

lemma runHoltWintersMultiplicative_nonneg:
  "\<forall>v \<in> set (runHoltWintersMultiplicative values horizon L). 0 \<le> v"
  by (auto simp: runHoltWintersMultiplicative_def split: prod.split)

lemma arimaLoop_nonneg: "\<forall>v \<in> set (arimaLoop values c k). 0 \<le> v"
  by (induction k arbitrary: c) (simp_all add: Let_def)

lemma runArima_nonneg: "\<forall>v \<in> set (runArima values horizon). 0 \<le> v"
  by (simp add: runArima_def arimaLoop_nonneg)

lemma forecastValues_nonneg:
  "\<forall>v \<in> set (forecastValues values horizon method hw auto). 0 \<le> v"
  using runLinear_nonneg runProphet_nonneg runArima_nonneg runHoltWintersAdditive_nonneg
    runHoltWintersMultiplicative_nonneg
  by (simp add: forecastValues_def runHoltWinters_def split: ForecastMethodology.split)

section \<open>The shape of a forecast\<close>

lemma forecastPoints_length:
  "forecastPoints lastDate multiplier sd k vals = Inr ps \<Longrightarrow> length ps = length vals"
  by (induction vals arbitrary: k ps) (auto split: sum.splits)

lemma forecastPoints_nth:
  "forecastPoints lastDate multiplier sd k vals = Inr ps \<Longrightarrow> j < length vals \<Longrightarrow>
   forecastPoint lastDate multiplier sd (vals ! j) (k + j) = Inr (ps ! j)"
proof (induction vals arbitrary: k ps j)
  case Nil
  then show ?case by simp
next
  case (Cons v vs)
  from Cons.prems(1) obtain p qs where
    p: "forecastPoint lastDate multiplier sd v k = Inr p" and
    qs: "forecastPoints lastDate multiplier sd (Suc k) vs = Inr qs" and
    ps: "ps = p # qs"
    by (auto split: sum.splits)
  show ?case
  proof (cases j)
    case 0
    with p ps show ?thesis by simp
  next
    case (Suc i)
    with Cons.prems(2) have "i < length vs" by simp
    from Cons.IH [OF qs this] Suc ps show ?thesis by simp
  qed
qed

lemma forecastPoint_fields:
  "forecastPoint lastDate multiplier sd val i = Inr p \<Longrightarrow>
   forecast p = Math_round val \<and> historical p = None \<and> isForecast p \<and>
   lowerBound p =
     Some (max 0 (Math_round (val - multiplier * sd * sqrt (real (i + 1)) * 0.4))) \<and>
   upperBound p = Some (Math_round (val + multiplier * sd * sqrt (real (i + 1)) * 0.4))"
  by (auto simp: forecastPoint_def forecastEntry_def Let_def split: sum.splits)

lemma forecastPoint_date:
  "forecastPoint lastDate multiplier sd val i = Inr p \<Longrightarrow>
   normalizedDate lastDate (i + 1) = Inr (date p)"
  by (auto simp: forecastPoint_def forecastEntry_def Let_def split: sum.splits)

lemma forecastPoint_returns:
  "normalizedDate lastDate (i + 1) = Inr d \<Longrightarrow>
   \<exists>p. forecastPoint lastDate multiplier sd val i = Inr p"
  by (simp add: forecastPoint_def Let_def)

lemma historicalPoint_fields:
  "forecast (historicalPoint c d) = quantity d \<and> historical (historicalPoint c d) = Some (quantity d) \<and>
   lowerBound (historicalPoint c d) = None \<and> upperBound (historicalPoint c d) = None"
  by (simp add: historicalPoint_def)

lemma calculateForecast_cases:
  assumes "calculateForecast historicalData horizon trainingDataEndDate conf method
     hw auto = Inr ps"
  shows "ps = [] \<or>
    (\<exists>fs. 3 \<le> length (trainingData historicalData trainingDataEndDate) \<and>
        forecastPoints (setDate1 (newDate trainingDataEndDate)) (getZMultiplier conf)
          (getStdDev (map quantity (trainingData historicalData trainingDataEndDate))) 0
          (forecastValues (map quantity (trainingData historicalData trainingDataEndDate)) horizon
             method hw auto) = Inr fs \<and>
        ps = map (historicalPoint trainingDataEndDate) historicalData @ fs)"
  using assms by (auto simp: calculateForecast_def Let_def split: if_splits sum.splits)

section \<open>A forecast worked out\<close>

text \<open>
  The ARIMA forecast of one step from the series 1, 3, 1, 3 at the 95 percent level: the
  mean is 2 and the standard deviation 1, the method gives 2.85, the uncertainty is
  \<open>1.96 * 1 * sqrt 1 * 0.4 = 0.784\<close>, so the point forecast is 3 and the bounds
  are \<open>round 2.066 = 2\<close> and \<open>round 3.634 = 4\<close>.
\<close>

lemma example_trainingData: "trainingData exampleSeries ''2024-04-01'' = exampleSeries"
  by (simp add: trainingData_def exampleSeries_def examplePoint_def)

lemma example_values: "map quantity exampleSeries = [1, 3, 1, 3]"
  by (simp add: exampleSeries_def examplePoint_def)

lemma example_length: "length exampleSeries = 4"
  by (simp add: exampleSeries_def)

lemma example_stdDev: "getStdDev [1, 3, 1, 3] = 1"
  by (simp add: getStdDev_def total_def)

lemma example_arima: "forecastValues [1, 3, 1, 3] 1 ARIMA multiplicative False = [57 / 20]"
  by (simp add: forecastValues_def runArima_def total_def)

lemma example_date:
  "normalizedDate (setDate1 (newDate ''2024-04-01'')) (Suc 0) = Inr ''2024-05-01''"
  by code_simp

lemma example_forecastPoints:
  "forecastPoints (setDate1 (newDate ''2024-04-01'')) (getZMultiplier 95) 1 0 [57 / 20] =
     Inr [forecastEntry ''2024-05-01'' 3 2 4]"
  by (simp add: forecastPoint_def example_date getZMultiplier_def Math_round_def Let_def
      del: newDate.simps)

lemma example_forecast:
  "calculateForecast exampleSeries 1 ''2024-04-01'' 95 ARIMA multiplicative False =
     Inr (map (historicalPoint ''2024-04-01'') exampleSeries @
          [forecastEntry ''2024-05-01'' 3 2 4])"
  apply (simp only: calculateForecast_def example_trainingData example_values example_stdDev
      example_arima example_length Let_def example_forecastPoints)
  apply (simp del: newDate.simps)
  done

section \<open>Forecasts are never negative\<close>

text \<open>
  Claim C1. For a history of non-negative quantities, whatever the horizon, the cutoff,
  the confidence level and the method, every number in the series that
  \<open>calculateForecast\<close> returns is at least 0: the forecast of every point, and the
  historical value, the lower bound and the upper bound wherever the point has one
  (historical points carry no bounds, forecast points no historical value).
\<close>

theorem calculateForecast_nonneg:
  assumes q: "\<forall>d \<in> set historicalData. 0 \<le> quantity d"
    and r: "calculateForecast historicalData horizon trainingDataEndDate conf method
              hw auto = Inr ps"
  shows "\<forall>p \<in> set ps.
           0 \<le> forecast p \<and>
           (\<forall>v. historical p = Some v \<longrightarrow> 0 \<le> v) \<and>
           (\<forall>v. lowerBound p = Some v \<longrightarrow> 0 \<le> v) \<and>
           (\<forall>v. upperBound p = Some v \<longrightarrow> 0 \<le> v)"
proof
  fix p assume p: "p \<in> set ps"
  let ?vals = "forecastValues (map quantity (trainingData historicalData trainingDataEndDate))
                 horizon method hw auto"
  let ?m = "getZMultiplier conf"
  let ?s = "getStdDev (map quantity (trainingData historicalData trainingDataEndDate))"
  from calculateForecast_cases [OF r] p obtain fs where
    fs: "forecastPoints (setDate1 (newDate trainingDataEndDate)) ?m ?s 0 ?vals = Inr fs" and
    ps: "ps = map (historicalPoint trainingDataEndDate) historicalData @ fs"
    by auto
  from p ps consider
    (hist) d where "d \<in> set historicalData" "p = historicalPoint trainingDataEndDate d"
    | (fore) "p \<in> set fs"
    by auto
  then show "0 \<le> forecast p \<and>
           (\<forall>v. historical p = Some v \<longrightarrow> 0 \<le> v) \<and>
           (\<forall>v. lowerBound p = Some v \<longrightarrow> 0 \<le> v) \<and>
           (\<forall>v. upperBound p = Some v \<longrightarrow> 0 \<le> v)"
  proof cases
    case hist
    with q show ?thesis by (simp add: historicalPoint_fields)
  next
    case fore
    then obtain j where j: "j < length fs" and pj: "p = fs ! j"
      by (auto simp: in_set_conv_nth)
    from forecastPoints_length [OF fs] j have jv: "j < length ?vals" by simp
    from forecastPoints_nth [OF fs jv] pj
    have fp: "forecastPoint (setDate1 (newDate trainingDataEndDate)) ?m ?s (?vals ! j) (0 + j) = Inr p"
      by simp
    have v0: "0 \<le> ?vals ! j"
      using forecastValues_nonneg jv nth_mem by blast
    have u0: "0 \<le> ?m * ?s * sqrt (real (0 + j + 1)) * 0.4"
      using getZMultiplier_pos [of conf] getStdDev_nonneg by simp
    from forecastPoint_fields [OF fp] v0 u0 show ?thesis
      by (simp add: Math_round_nonneg)
  qed
qed


theorem calculateForecast_nonneg_witness:
  "list_all (\<lambda>d. 0 \<le> quantity d) exampleSeries \<and>
   calculateForecast exampleSeries 1 ''2024-04-01'' 95 ARIMA multiplicative False =
     Inr (map (historicalPoint ''2024-04-01'') exampleSeries @
          [forecastEntry ''2024-05-01'' 3 2 4]) \<and>
   list_all (\<lambda>p. 0 \<le> forecast p \<and>
                  (\<forall>v. historical p = Some v \<longrightarrow> 0 \<le> v) \<and>
                  (\<forall>v. lowerBound p = Some v \<longrightarrow> 0 \<le> v) \<and>
                  (\<forall>v. upperBound p = Some v \<longrightarrow> 0 \<le> v))
     (map (historicalPoint ''2024-04-01'') exampleSeries @
      [forecastEntry ''2024-05-01'' 3 2 4])"
proof -
  have q: "\<forall>d \<in> set exampleSeries. 0 \<le> quantity d"
    by (simp add: exampleSeries_def examplePoint_def)
  from calculateForecast_nonneg [OF q example_forecast] q example_forecast
  show ?thesis
    unfolding list_all_iff by blast
qed

section \<open>Confidence bounds\<close>

lemma arimaLoop_length: "length (arimaLoop values c k) = k"
  by (induction k arbitrary: c) (simp_all add: Let_def)

lemma forecastValues_length:
  "length (forecastValues values horizon method hw auto) = horizon"
  by (auto simp: forecastValues_def runHoltWinters_def runLinear_def runProphet_def runArima_def
      runHoltWintersAdditive_def runHoltWintersMultiplicative_def arimaLoop_length Let_def
      split: ForecastMethodology.split prod.split)

lemma foldl_add_sum_list: "foldl (\<lambda>s x. s + f x) (a::real) xs = a + (\<Sum>x\<leftarrow>xs. f x)"
  by (induction xs arbitrary: a) simp_all

lemma total_sum_list: "total values = sum_list values"
  using foldl_add_sum_list [of "\<lambda>x. x" 0 "values"] by (simp add: total_def)

lemma getStdDev_population:
  "values \<noteq> [] \<Longrightarrow>
   getStdDev values =
     sqrt ((\<Sum>x\<leftarrow>values. (x - sum_list values / real (length values)) ^ 2) /
           real (length values))"
  by (simp add: getStdDev_def Let_def total_sum_list foldl_add_sum_list)

text \<open>
  Claim C4, as amended. For every step \<open>i\<close> from 1 to the horizon, the forecast point
  of that step holds the rounded value of the method, and its bounds are the rounded
  values of that unrounded method value plus and minus
  \<open>z * sigma * sqrt i * 0.4\<close>, the lower one floored at 0; \<open>sigma\<close> is the
  population standard deviation of the training values and \<open>z\<close> is 2.576, 1.96,
  1.645, 1.44, 1.28 at the levels 99, 95, 90, 85, 80.
\<close>

theorem calculateForecast_bounds:
  assumes r: "calculateForecast historicalData horizon trainingDataEndDate conf method
              hw auto = Inr ps"
    and ne: "ps \<noteq> []" and i1: "1 \<le> i" and ih: "i \<le> horizon"
  shows "(let values = map quantity (trainingData historicalData trainingDataEndDate);
              val = forecastValues values horizon method hw auto ! (i - 1);
              z = getZMultiplier conf;
              sigma = getStdDev values;
              u = z * sigma * sqrt (real i) * 0.4;
              p = ps ! (length historicalData + i - 1)
          in isForecast p \<and> forecast p = Math_round val \<and>
             lowerBound p = Some (max 0 (Math_round (val - u))) \<and>
             upperBound p = Some (Math_round (val + u)) \<and>
             sigma = sqrt ((\<Sum>x\<leftarrow>values. (x - sum_list values / real (length values)) ^ 2) /
                           real (length values))) \<and>
         getZMultiplier 99 = 2.576 \<and> getZMultiplier 95 = 1.96 \<and> getZMultiplier 90 = 1.645 \<and>
         getZMultiplier 85 = 1.44 \<and> getZMultiplier 80 = 1.28"
proof -
  let ?tv = "map quantity (trainingData historicalData trainingDataEndDate)"
  let ?vals = "forecastValues ?tv horizon method hw auto"
  let ?m = "getZMultiplier conf"
  let ?s = "getStdDev ?tv"
  from calculateForecast_cases [OF r] ne obtain fs where
    n3: "3 \<le> length (trainingData historicalData trainingDataEndDate)" and
    fs: "forecastPoints (setDate1 (newDate trainingDataEndDate)) ?m ?s 0 ?vals = Inr fs" and
    ps: "ps = map (historicalPoint trainingDataEndDate) historicalData @ fs"
    by auto
  from i1 ih have j: "i - 1 < length ?vals" by (simp add: forecastValues_length)
  from forecastPoints_nth [OF fs j] i1
  have fp: "forecastPoint (setDate1 (newDate trainingDataEndDate)) ?m ?s (?vals ! (i - 1)) (i - 1) =
              Inr (fs ! (i - 1))"
    by simp
  have idx: "ps ! (length historicalData + i - 1) = fs ! (i - 1)"
    using ps i1 by (simp add: nth_append)
  have i': "real (i - 1 + 1) = real i" using i1 by simp
  from n3 have "?tv \<noteq> []" by auto
  note pop = getStdDev_population [OF this]
  have "isForecast (fs ! (i - 1)) \<and> forecast (fs ! (i - 1)) = Math_round (?vals ! (i - 1)) \<and>
        lowerBound (fs ! (i - 1)) =
          Some (max 0 (Math_round (?vals ! (i - 1) - ?m * ?s * sqrt (real i) * 0.4))) \<and>
        upperBound (fs ! (i - 1)) =
          Some (Math_round (?vals ! (i - 1) + ?m * ?s * sqrt (real i) * 0.4))"
    using forecastPoint_fields [OF fp] unfolding i' by simp
  with idx pop show ?thesis
    unfolding Let_def by (simp add: getZMultiplier_def)
qed


theorem calculateForecast_bounds_witness:
  "calculateForecast exampleSeries 1 ''2024-04-01'' 95 ARIMA multiplicative False =
     Inr (map (historicalPoint ''2024-04-01'') exampleSeries @
          [forecastEntry ''2024-05-01'' 3 2 4]) \<and>
   (let values = map quantity (trainingData exampleSeries ''2024-04-01'');
        val = forecastValues values 1 ARIMA multiplicative False ! (1 - 1);
        u = getZMultiplier 95 * getStdDev values * sqrt (real 1) * 0.4;
        p = (map (historicalPoint ''2024-04-01'') exampleSeries @
             [forecastEntry ''2024-05-01'' 3 2 4]) ! (length exampleSeries + 1 - 1)
    in forecast p = Math_round val \<and>
       lowerBound p = Some (max 0 (Math_round (val - u))) \<and>
       upperBound p = Some (Math_round (val + u)))"
proof -
  have ne: "map (historicalPoint ''2024-04-01'') exampleSeries @
            [forecastEntry ''2024-05-01'' 3 2 4] \<noteq> []"
    by simp
  have i: "(1::nat) \<le> 1"
    by simp
  from calculateForecast_bounds [OF example_forecast ne i i] example_forecast
  show ?thesis
    unfolding Let_def by blast
qed

text \<open>
  The claim as it was stated fails at the worked forecast: the upper bound is 4 and the
  lower bound 2, while the point forecast 3 plus and minus 0.784 is 3.784 and 2.216,
  and the unrounded method value 2.85 plus and minus 0.784 is 3.634 and 2.066.
\<close>

theorem calculateForecast_bounds_counterexample:
  "calculateForecast exampleSeries 1 ''2024-04-01'' 95 ARIMA multiplicative False =
     Inr (map (historicalPoint ''2024-04-01'') exampleSeries @
          [forecastEntry ''2024-05-01'' 3 2 4]) \<and>
   forecastValues (map quantity (trainingData exampleSeries ''2024-04-01'')) 1 ARIMA
     multiplicative False = [2.85] \<and>
   getZMultiplier 95 * getStdDev (map quantity (trainingData exampleSeries ''2024-04-01'')) *
     sqrt (real 1) * 0.4 = 0.784 \<and>
   forecast (forecastEntry ''2024-05-01'' 3 2 4) = 3 \<and>
   upperBound (forecastEntry ''2024-05-01'' 3 2 4) = Some 4 \<and>
   lowerBound (forecastEntry ''2024-05-01'' 3 2 4) = Some 2 \<and>
   (4::real) \<noteq> 3 + 0.784 \<and> (4::real) \<noteq> 2.85 + 0.784 \<and>
   (2::real) \<noteq> max 0 (3 - 0.784) \<and> (2::real) \<noteq> max 0 (2.85 - 0.784)"
proof -
  have v: "forecastValues (map quantity (trainingData exampleSeries ''2024-04-01'')) 1 ARIMA
             multiplicative False = [2.85]"
    by (simp only: example_trainingData example_values example_arima) simp
  have u: "getZMultiplier 95 *
             getStdDev (map quantity (trainingData exampleSeries ''2024-04-01'')) *
             sqrt (real 1) * 0.4 = 0.784"
    by (simp only: example_trainingData example_values example_stdDev)
      (simp add: getZMultiplier_def)
  have p: "forecast (forecastEntry ''2024-05-01'' 3 2 4) = 3 \<and>
           upperBound (forecastEntry ''2024-05-01'' 3 2 4) = Some 4 \<and>
           lowerBound (forecastEntry ''2024-05-01'' 3 2 4) = Some 2"
    by (simp add: forecastEntry_def)
  have n: "(4::real) \<noteq> 3 + 0.784 \<and> (4::real) \<noteq> 2.85 + 0.784 \<and>
           (2::real) \<noteq> max 0 (3 - 0.784) \<and> (2::real) \<noteq> max 0 (2.85 - 0.784)"
    by simp
  show ?thesis
    by (intro conjI example_forecast v u p [THEN conjunct1] p [THEN conjunct2, THEN conjunct1]
        p [THEN conjunct2, THEN conjunct2] n [THEN conjunct1]
        n [THEN conjunct2, THEN conjunct1] n [THEN conjunct2, THEN conjunct2, THEN conjunct1]
        n [THEN conjunct2, THEN conjunct2, THEN conjunct2])
qed

section \<open>Insufficient training data\<close>

text \<open>
  Claim C3. When fewer than three points of the series are dated on or before the
  training cutoff, \<open>calculateForecast\<close> returns the empty list, and it returns it as
  a value: no exception reaches the caller.
\<close>

theorem calculateForecast_insufficient:
  "length (filter (\<lambda>d. DataPoint.date d \<le> trainingDataEndDate) historicalData) < 3 \<Longrightarrow>
   calculateForecast historicalData horizon trainingDataEndDate conf method
     hw auto = Inr []"
  by (simp add: calculateForecast_def trainingData_def)

theorem calculateForecast_insufficient_witness:
  "length (filter (\<lambda>d. DataPoint.date d \<le> ''2024-02-15'') exampleSeries) = 2 \<and>
   calculateForecast exampleSeries 6 ''2024-02-15'' 95 LINEAR multiplicative False = Inr []"
proof -
  have n: "length (filter (\<lambda>d. DataPoint.date d \<le> ''2024-02-15'') exampleSeries) = 2"
    by (simp add: exampleSeries_def examplePoint_def)
  then have "length (filter (\<lambda>d. DataPoint.date d \<le> ''2024-02-15'') exampleSeries) < 3"
    by simp
  from calculateForecast_insufficient [OF this] n show ?thesis
    by simp
qed

section \<open>Market shocks\<close>

lemma applyShock_date: "date (applyShock shocks p) = date p"
  by (simp add: applyShock_def Let_def split: option.split)

lemma applyShock_historical: "\<not> isForecast p \<Longrightarrow> applyShock shocks p = p"
  by (simp add: applyShock_def split: option.split)

lemma applyShock_no_match:
  "\<forall>s \<in> set shocks. month s \<noteq> take 7 (date p) \<Longrightarrow> applyShock shocks p = p"
proof -
  assume "\<forall>s \<in> set shocks. month s \<noteq> take 7 (date p)"
  then have "find (\<lambda>s. month s = take 7 (date p)) shocks = None"
    by (simp add: find_None_iff)
  then show ?thesis
    by (simp add: applyShock_def)
qed

text \<open>
  The frame of \<open>applyMarketShocks\<close>: the result has the length and the dates of the
  input, in the same order, and a point that is not a forecast, or whose month no shock
  names, comes back as it went in.
\<close>

lemma applyMarketShocks_frame:
  "length (applyMarketShocks points shocks) = length points \<and>
   map date (applyMarketShocks points shocks) = map date points \<and>
   (\<forall>i < length points.
      \<not> isForecast (points ! i) \<or> (\<forall>s \<in> set shocks. month s \<noteq> take 7 (date (points ! i))) \<longrightarrow>
      applyMarketShocks points shocks ! i = points ! i)"
  by (auto simp: applyMarketShocks_def applyShock_date applyShock_historical applyShock_no_match
      comp_def)

text \<open>
  A forecast point whose month a shock names: the forecast is scaled and rounded, each
  of the four optional fields is scaled and rounded when it holds a number other than
  0, and every other field keeps its value.
\<close>

lemma applyShock_match:
  assumes "find (\<lambda>s. month s = take 7 (date p)) shocks = Some shock" and "isForecast p"
  shows "applyShock shocks p =
           p\<lparr>forecast := Math_round (forecast p * (1 + percentageChange shock / 100)),
             scenarioForecast :=
               scaleIfTruthy (1 + percentageChange shock / 100) (scenarioForecast p),
             projectedInventory :=
               scaleIfTruthy (1 + percentageChange shock / 100) (projectedInventory p),
             projectedRevenue :=
               scaleIfTruthy (1 + percentageChange shock / 100) (projectedRevenue p),
             projectedMargin :=
               scaleIfTruthy (1 + percentageChange shock / 100) (projectedMargin p)\<rparr>"
  using assms by (simp add: applyShock_def Let_def)

text \<open>
  Claim C10 says that a forecast point in a shocked month has its projected inventory
  scaled by \<open>1 + percentageChange / 100\<close> and rounded. At a projected inventory of 0
  that is 0 again, but the function returns the point without a projected inventory.
\<close>

theorem applyMarketShocks_drops_zero:
  "isForecast exampleDepleted \<and> projectedInventory exampleDepleted = Some 0 \<and>
   month exampleShock = take 7 (date exampleDepleted) \<and>
   Some (Math_round (0 * (1 + percentageChange exampleShock / 100))) = Some 0 \<and>
   map projectedInventory (applyMarketShocks [exampleDepleted] [exampleShock]) = [None]"
  by (simp add: applyMarketShocks_def applyShock_def scaleIfTruthy_def exampleDepleted_def
      exampleShock_def forecastEntry_def Math_round_def)


section \<open>Volatility ranking\<close>



















section \<open>Classifier\<close>



















section \<open>Backtest: the dates of a forecast and the size of a slice\<close>

lemma forecastPoints_returns:
  "\<forall>j < length vals. \<exists>d. normalizedDate ld (k + j + 1) = Inr d \<Longrightarrow>
   \<exists>ps. forecastPoints ld m sd k vals = Inr ps"
proof (induction vals arbitrary: k)
  case Nil
  then show ?case by simp
next
  case (Cons v vs)
  from Cons.prems have "\<exists>d. normalizedDate ld (k + 0 + 1) = Inr d" by blast
  then obtain p where p: "forecastPoint ld m sd v k = Inr p"
    using forecastPoint_returns [of ld k _ m sd v] by auto
  have "\<forall>j < length vs. \<exists>d. normalizedDate ld (Suc k + j + 1) = Inr d"
  proof (intro allI impI)
    fix j assume "j < length vs"
    then have "Suc j < length (v # vs)" by simp
    with Cons.prems have "\<exists>d. normalizedDate ld (k + Suc j + 1) = Inr d" by blast
    then show "\<exists>d. normalizedDate ld (Suc k + j + 1) = Inr d" by simp
  qed
  from Cons.IH [OF this] obtain ps where "forecastPoints ld m sd (Suc k) vs = Inr ps" by blast
  with p show ?case by simp
qed

lemma forecastPoints_dates:
  assumes "forecastPoints ld m sd k vals = Inr ps"
  shows "map (\<lambda>p. Inr (date p)) ps = map (\<lambda>j. normalizedDate ld (k + j + 1)) [0..<length vals] \<and>
         list_all isForecast ps"
proof -
  have len: "length ps = length vals" by (rule forecastPoints_length [OF assms])
  have nth: "normalizedDate ld (k + j + 1) = Inr (date (ps ! j)) \<and> isForecast (ps ! j)"
    if "j < length vals" for j
    using forecastPoints_nth [OF assms that] forecastPoint_date forecastPoint_fields by blast
  have "map (\<lambda>p. Inr (date p)) ps = map (\<lambda>j. normalizedDate ld (k + j + 1)) [0..<length vals]"
  proof (rule nth_equalityI)
    show "length (map (\<lambda>p. Inr (date p) :: error + string) ps) =
          length (map (\<lambda>j. normalizedDate ld (k + j + 1)) [0..<length vals])"
      by (simp add: len)
  next
    fix i assume "i < length (map (\<lambda>p. Inr (date p) :: error + string) ps)"
    then have i: "i < length vals" by (simp add: len)
    from nth [OF i] i len
    show "map (\<lambda>p. Inr (date p)) ps ! i =
          map (\<lambda>j. normalizedDate ld (k + j + 1)) [0..<length vals] ! i"
      by simp
  qed
  moreover have "list_all isForecast ps"
    using nth len by (simp add: list_all_length)
  ultimately show ?thesis by simp
qed

lemma map_Inr_eq: "map (\<lambda>p. Inr (f p)) xs = map Inr ys \<Longrightarrow> map f xs = ys"
  by (induction xs arbitrary: ys) auto

lemma calculateForecast_forecast_dates:
  assumes h3: "3 \<le> length hist" and c: "cutoff \<noteq> []"
    and le: "\<forall>d \<in> set hist. DataPoint.date d \<le> cutoff"
    and ds: "map (\<lambda>i. normalizedDate (setDate1 (newDate cutoff)) (i + 1)) [0..<horizon] =
               map Inr ds"
  shows "\<exists>ps. calculateForecast hist horizon cutoff conf m hw auto = Inr ps \<and>
              map date (filter isForecast ps) = ds"
proof -
  let ?ld = "setDate1 (newDate cutoff)"
  let ?vals = "forecastValues (map quantity hist) horizon m hw auto"
  have t: "trainingData hist cutoff = hist"
    using le by (simp add: trainingData_def)
  have lv: "length ?vals = horizon" by (rule forecastValues_length)
  have lds: "length ds = horizon"
    using arg_cong [OF ds, of length] by simp
  have d: "normalizedDate ?ld (i + 1) = Inr (ds ! i)" if "i < horizon" for i
    using arg_cong [OF ds, of "\<lambda>xs. xs ! i"] that lds by simp
  have "\<forall>j < length ?vals. \<exists>d. normalizedDate ?ld (0 + j + 1) = Inr d"
    using d lv by simp
  from forecastPoints_returns [OF this] obtain fs where
    fs: "forecastPoints ?ld (getZMultiplier conf) (getStdDev (map quantity hist)) 0 ?vals = Inr fs"
    by blast
  from forecastPoints_dates [OF fs] lv have
    fd: "map (\<lambda>p. Inr (date p) :: error + string) fs =
           map (\<lambda>j. normalizedDate ?ld (j + 1)) [0..<horizon]" and
    ff: "list_all isForecast fs"
    by simp_all
  from fd ds have "map (\<lambda>p. Inr (date p) :: error + string) fs = map Inr ds" by simp
  then have dates: "map date fs = ds"
    by (rule map_Inr_eq)
  have r: "calculateForecast hist horizon cutoff conf m hw auto =
             Inr (map (historicalPoint cutoff) hist @ fs)"
    using h3 c fs by (simp add: calculateForecast_def t Let_def)
  have hp: "filter isForecast (map (historicalPoint cutoff) hist) = []"
    using le by (auto simp: filter_empty_conv historicalPoint_def not_less)
  have "filter isForecast fs = fs"
    using ff by (simp add: list_all_iff)
  with r hp dates show ?thesis by simp
qed

lemma applyMarketAdj_forecast_dates:
  "map date (filter isForecast (applyMarketAdj st fc)) = map date (filter isForecast fc)"
proof -
  have "map date (filter isForecast (map (\<lambda>p. if isForecast p then p\<lparr>forecast := g p\<rparr> else p) fc)) =
        map date (filter isForecast fc)" for g
    by (induction fc) simp_all
  then show ?thesis
    by (simp add: applyMarketAdj_def split: option.split)
qed

lemma methodDataOf_shape:
  "dates (methodDataOf sd fc) = map date (filter isForecast fc) \<and>
   length (forecasts (methodDataOf sd fc)) = length (filter isForecast fc) \<and>
   length (actuals (methodDataOf sd fc)) = length (filter isForecast fc)"
  by (simp add: methodDataOf_def Let_def)

lemma methodEntries_shape:
  assumes h3: "3 \<le> length T"
    and c: "DataPoint.date (T ! (length T - 1)) \<noteq> []"
    and le: "\<forall>d \<in> set T. DataPoint.date d \<le> DataPoint.date (T ! (length T - 1))"
    and ds: "map (\<lambda>i. normalizedDate (setDate1 (newDate (DataPoint.date (T ! (length T - 1)))))
                        (i + 1)) [0..<13] = map Inr ds"
  shows "\<exists>es. methodEntries st sd T ms = Inr es \<and> map fst es = ms \<and>
              list_all (\<lambda>e. dates (snd e) = ds \<and> length (forecasts (snd e)) = length ds \<and>
                             length (actuals (snd e)) = length ds) es"
proof (induction ms)
  case Nil
  show ?case by simp
next
  case (Cons m ms)
  from calculateForecast_forecast_dates [OF h3 c le ds] obtain fc where
    fc: "calculateForecast T 13 (DataPoint.date (T ! (length T - 1))) (confidenceLevel st) m
           (hwMethod st) (autoDetectHW st) = Inr fc" and
    fd: "map date (filter isForecast fc) = ds"
    by blast
  from Cons.IH obtain es where
    es: "methodEntries st sd T ms = Inr es" and k: "map fst es = ms" and
    sh: "list_all (\<lambda>e. dates (snd e) = ds \<and> length (forecasts (snd e)) = length ds \<and>
                        length (actuals (snd e)) = length ds) es"
    by blast
  let ?md = "methodDataOf sd (applyMarketAdj st fc)"
  have d: "dates ?md = ds"
    using methodDataOf_shape [of sd "applyMarketAdj st fc"] fd
    by (simp add: applyMarketAdj_forecast_dates)
  have l: "length (forecasts ?md) = length ds \<and> length (actuals ?md) = length ds"
    using methodDataOf_shape [of sd "applyMarketAdj st fc"] d
    by (metis length_map)
  have "methodEntries st sd T (m # ms) = Inr ((m, ?md) # es)"
    using fc es by (simp add: Let_def)
  with k sh d l show ?case by simp
qed

lemma filter_zip_length:
  "length ps = length ds \<Longrightarrow>
   length (filter (\<lambda>(d, pair). P d) (zip ds ps)) = length (filter P ds)"
  by (induction ds ps rule: list_induct2') simp_all

lemma slicePairs_length:
  "length (forecasts md) = length (dates md) \<Longrightarrow> length (actuals md) = length (dates md) \<Longrightarrow>
   length (slicePairs w md) = length (filter (inTestWindow w) (dates md))"
  by (simp add: slicePairs_def filter_zip_length)

section \<open>A backtest worked out\<close>

text \<open>
  The example history with the forecast starting in January 2025: the test period runs
  from 2024-01-01 to 2024-12-01, SKU-A is trained on the 12 months of 2023 and forecast
  for the 13 months from January 2024 to January 2025, and SKU-B has 5 points only.
\<close>

lemma ex_window: "testWindow ''2025-01-01'' = Inr exampleWindow"
  by code_simp

lemma ex_skuB: "skuDataOf exampleHistory ''SKU-B'' = exampleSkuB"
  by code_simp

lemma ex_skuA: "skuDataOf exampleHistory ''SKU-A'' = exampleSkuA"
  by code_simp

lemma ex_train: "trainDataOf exampleWindow exampleSkuA = take 12 exampleSkuA"
  by code_simp

lemma ex_lengths: "length exampleSkuA = 24 \<and> length exampleSkuB = 5 \<and> length exampleHistory = 29"
  by code_simp

lemma ex_trainEnd: "DataPoint.date (take 12 exampleSkuA ! (length (take 12 exampleSkuA) - 1)) = ''2023-12-01''"
  by code_simp

lemma ex_train_dates: "list_all (\<lambda>d. DataPoint.date d \<le> ''2023-12-01'') (take 12 exampleSkuA)"
  by code_simp

lemma ex_forecast_dates:
  "map (\<lambda>i. normalizedDate (setDate1 (newDate ''2023-12-01'')) (i + 1)) [0..<13] =
     map Inr exampleForecastMonths"
  by code_simp

lemma ex_in_window:
  "filter (inTestWindow exampleWindow) exampleForecastMonths = drop 12 exampleMonths"
  by code_simp

lemma ex_train_shape:
  "3 \<le> length (take 12 exampleSkuA) \<and> length (take 12 exampleSkuA) = 12 \<and>
   DataPoint.date (take 12 exampleSkuA ! (length (take 12 exampleSkuA) - 1)) \<noteq> [] \<and>
   (\<forall>d \<in> set (take 12 exampleSkuA).
      DataPoint.date d \<le> DataPoint.date (take 12 exampleSkuA ! (length (take 12 exampleSkuA) - 1)))"
proof (intro conjI)
  show "3 \<le> length (take 12 exampleSkuA)" "length (take 12 exampleSkuA) = 12"
    using ex_lengths by simp_all
  show "DataPoint.date (take 12 exampleSkuA ! (length (take 12 exampleSkuA) - 1)) \<noteq> []"
    by (simp only: ex_trainEnd) simp
  show "\<forall>d \<in> set (take 12 exampleSkuA).
      DataPoint.date d \<le> DataPoint.date (take 12 exampleSkuA ! (length (take 12 exampleSkuA) - 1))"
    using ex_train_dates by (simp only: ex_trainEnd list_all_iff)
qed

lemma ex_entries:
  "\<exists>es. methodEntries exampleSettings exampleSkuA (take 12 exampleSkuA) allMethods = Inr es \<and>
         map fst es = allMethods \<and>
         list_all (\<lambda>e. dates (snd e) = exampleForecastMonths \<and>
                        length (forecasts (snd e)) = 13 \<and> length (actuals (snd e)) = 13) es"
proof -
  have l: "length exampleForecastMonths = 13"
    by (simp add: exampleForecastMonths_def exampleMonths_def)
  have ds: "map (\<lambda>i. normalizedDate (setDate1 (newDate (DataPoint.date
                (take 12 exampleSkuA ! (length (take 12 exampleSkuA) - 1))))) (i + 1)) [0..<13] =
            map Inr exampleForecastMonths"
    by (simp only: ex_trainEnd ex_forecast_dates)
  from methodEntries_shape [OF ex_train_shape [THEN conjunct1]
      ex_train_shape [THEN conjunct2, THEN conjunct2, THEN conjunct1]
      ex_train_shape [THEN conjunct2, THEN conjunct2, THEN conjunct2] ds,
      of exampleSettings exampleSkuA allMethods]
  show ?thesis by (simp only: l)
qed

lemma ex_skuBacktest:
  "\<exists>es. skuBacktest exampleSettings exampleHistory exampleWindow ''SKU-A'' = Inr (Some es) \<and>
         map fst es = allMethods \<and>
         list_all (\<lambda>e. dates (snd e) = exampleForecastMonths \<and>
                        length (forecasts (snd e)) = 13 \<and> length (actuals (snd e)) = 13) es"
proof -
  from ex_entries obtain es where
    es: "methodEntries exampleSettings exampleSkuA (take 12 exampleSkuA) allMethods = Inr es" and
    sh: "map fst es = allMethods \<and>
         list_all (\<lambda>e. dates (snd e) = exampleForecastMonths \<and>
                        length (forecasts (snd e)) = 13 \<and> length (actuals (snd e)) = 13) es"
    by (elim exE conjE) (rule that, assumption, intro conjI, assumption+)
  have "skuBacktest exampleSettings exampleHistory exampleWindow ''SKU-A'' = Inr (Some es)"
    unfolding skuBacktest_def ex_skuA ex_train Let_def
    using ex_lengths ex_train_shape es by simp
  with sh show ?thesis by (intro exI conjI) (assumption | erule conjunct1 | erule conjunct2)+
qed

lemma ex_months_2024:
  "drop 12 exampleMonths =
     [''2024-01-01'', ''2024-02-01'', ''2024-03-01'', ''2024-04-01'', ''2024-05-01'',
      ''2024-06-01'', ''2024-07-01'', ''2024-08-01'', ''2024-09-01'', ''2024-10-01'',
      ''2024-11-01'', ''2024-12-01'']"
  by (simp add: exampleMonths_def)

lemma ex_run:
  "testWindowStart (backtestFor exampleSettings exampleHistory ''2025-01-01'' [''SKU-A'']) =
     ''2024-01-01'' \<and>
   testWindowEnd (backtestFor exampleSettings exampleHistory ''2025-01-01'' [''SKU-A'']) =
     ''2024-12-01'' \<and>
   map fst (skuMethodForecasts
     (backtestFor exampleSettings exampleHistory ''2025-01-01'' [''SKU-A''])) = [''SKU-A''] \<and>
   list_all (\<lambda>e. map fst (snd e) = allMethods \<and>
                  list_all (\<lambda>md. filter (inTestWindow exampleWindow) (dates (snd md)) =
                                   drop 12 exampleMonths) (snd e))
     (skuMethodForecasts
       (backtestFor exampleSettings exampleHistory ''2025-01-01'' [''SKU-A''])) \<and>
   map (\<lambda>m. length (methodPairs exampleWindow
                (skuMethodForecasts
                  (backtestFor exampleSettings exampleHistory ''2025-01-01'' [''SKU-A''])) m))
     allMethods = [12, 12, 12, 12] \<and>
   methodMetrics (backtestFor exampleSettings exampleHistory ''2025-01-01'' [''SKU-A'']) =
     map (\<lambda>m. (m, metricsOf (methodPairs exampleWindow
                (skuMethodForecasts
                  (backtestFor exampleSettings exampleHistory ''2025-01-01'' [''SKU-A''])) m)))
       allMethods"
proof -
  from ex_skuBacktest obtain es where
    sb: "skuBacktest exampleSettings exampleHistory exampleWindow ''SKU-A'' = Inr (Some es)" and
    ks: "map fst es = allMethods" and
    sh: "list_all (\<lambda>e. dates (snd e) = exampleForecastMonths \<and>
                        length (forecasts (snd e)) = 13 \<and> length (actuals (snd e)) = 13) es"
    by (elim exE conjE) (rule that, assumption+)
  from ks obtain a b c d where
    es: "es = [(HOLT_WINTERS, a), (PROPHET, b), (ARIMA, c), (LINEAR, d)]"
    by (auto simp: allMethods_def map_eq_Cons_conv)
  have l13: "length exampleForecastMonths = 13"
    by (simp add: exampleForecastMonths_def exampleMonths_def)
  have l12: "length (drop 12 exampleMonths) = 12"
    by (simp add: exampleMonths_def)
  have n: "length (slicePairs exampleWindow x) = 12"
    if "dates x = exampleForecastMonths" "length (forecasts x) = 13" "length (actuals x) = 13"
    for x
    using slicePairs_length [of x exampleWindow] that l13 l12 by (simp add: ex_in_window)
  from sh es have na: "length (slicePairs exampleWindow a) = 12"
    and nb: "length (slicePairs exampleWindow b) = 12"
    and nc: "length (slicePairs exampleWindow c) = 12"
    and nd: "length (slicePairs exampleWindow d) = 12"
    by (simp_all add: n)
  from sh es have da: "filter (inTestWindow exampleWindow) (dates a) = drop 12 exampleMonths"
    and db: "filter (inTestWindow exampleWindow) (dates b) = drop 12 exampleMonths"
    and dc: "filter (inTestWindow exampleWindow) (dates c) = drop 12 exampleMonths"
    and dd: "filter (inTestWindow exampleWindow) (dates d) = drop 12 exampleMonths"
    by (simp_all add: ex_in_window)
  have p1: "phase1 exampleSettings exampleHistory exampleWindow [''SKU-A''] [] =
              Inr [(''SKU-A'', es)]"
    by (simp add: sb)
  have fw: "fst exampleWindow = ''2024-01-01''" "snd exampleWindow = ''2024-12-01''"
    by (simp_all add: exampleWindow_def)
  have r: "backtestFor exampleSettings exampleHistory ''2025-01-01'' [''SKU-A''] =
      \<lparr>skuMethodForecasts = [(''SKU-A'', es)], testWindowStart = ''2024-01-01'',
       testWindowEnd = ''2024-12-01'',
       methodMetrics = phase2 exampleWindow [(''SKU-A'', es)]\<rparr>"
    using ex_lengths fw by (simp add: backtestFor_def ex_window p1 del: phase1.simps)
  have mp: "map (\<lambda>m. length (methodPairs exampleWindow [(''SKU-A'', es)] m)) allMethods =
              [12, 12, 12, 12]"
    by (simp add: methodPairs_def allMethods_def es na nb nc nd)
  from na nb nc nd have ne: "slicePairs exampleWindow a \<noteq> []"
    "slicePairs exampleWindow b \<noteq> []" "slicePairs exampleWindow c \<noteq> []"
    "slicePairs exampleWindow d \<noteq> []"
    by auto
  have ph: "phase2 exampleWindow [(''SKU-A'', es)] =
      map (\<lambda>m. (m, metricsOf (methodPairs exampleWindow [(''SKU-A'', es)] m))) allMethods"
    using ne by (simp add: phase2_def methodPairs_def allMethods_def es Let_def)
  show ?thesis
    unfolding r using mp ph ks by (simp add: es da db dc dd)
qed

section \<open>Backtest: SKUs with too little data\<close>

lemma phase1_skip:
  "skuBacktest st dat w s = Inr None \<Longrightarrow>
   phase1 st dat w skus acc = phase1 st dat w (removeAll s skus) acc"
proof (induction skus arbitrary: acc)
  case Nil
  then show ?case by simp
next
  case (Cons k skus)
  show ?case
  proof (cases "k = s")
    case True
    with Cons show ?thesis by simp
  next
    case False
    with Cons show ?thesis by (simp split: sum.split option.split)
  qed
qed

lemma alist_update_keys: "fst ` set (AList.update k v al) = insert k (fst ` set al)"
  by (simp add: dom_update)

lemma phase1_keys:
  "phase1 st dat w skus acc = Inr smf \<Longrightarrow> skuBacktest st dat w s = Inr None \<Longrightarrow>
   s \<notin> fst ` set acc \<Longrightarrow> s \<notin> fst ` set smf"
proof (induction skus arbitrary: acc)
  case Nil
  then show ?case by simp
next
  case (Cons k skus)
  show ?case
  proof (cases "skuBacktest st dat w k")
    case (Inl e)
    with Cons.prems(1) show ?thesis by simp
  next
    case (Inr r)
    show ?thesis
    proof (cases r)
      case None
      with Inr Cons show ?thesis by simp
    next
      case (Some sm)
      with Inr Cons.prems(2) have "k \<noteq> s" by auto
      with Cons.prems(3) have "s \<notin> fst ` set (AList.update k sm acc)"
        by (simp add: alist_update_keys)
      with Cons.IH [of "AList.update k sm acc"] Cons.prems(1,2) Inr Some show ?thesis
        by simp
    qed
  qed
qed

lemma skuBacktest_insufficient:
  "length (skuDataOf dat s) < 18 \<or> length (trainDataOf w (skuDataOf dat s)) < 6 \<Longrightarrow>
   skuBacktest st dat w s = Inr None"
  by (auto simp: skuBacktest_def Let_def)

lemma backtestFor_core:
  "skuMethodForecasts (backtestFor st dat fsm skus) =
     (if length dat < 18 then []
      else case testWindow fsm of
             Inl e \<Rightarrow> []
           | Inr w \<Rightarrow> (case phase1 st dat w skus [] of Inl e \<Rightarrow> [] | Inr smf \<Rightarrow> smf)) \<and>
   methodMetrics (backtestFor st dat fsm skus) =
     (if length dat < 18 then []
      else case testWindow fsm of
             Inl e \<Rightarrow> []
           | Inr w \<Rightarrow>
               (case phase1 st dat w skus [] of
                  Inl e \<Rightarrow> []
                | Inr smf \<Rightarrow> if smf = [] then [] else phase2 w smf))"
  by (cases skus)
    (auto simp: backtestFor_def emptyResult_def split: sum.split)

text \<open>
  Claim C6. A SKU with fewer than 18 points, or with fewer than 6 points before the
  start of the test period, gets no entry in \<open>skuMethodForecasts\<close>, from
  which alone the pairs of every method are taken, so it adds no pair to any method;
  and the run returns for the other SKUs what it returns when the SKU is left out of
  the list: the same forecasts and the same metrics per method.
\<close>

theorem backtest_skips_insufficient:
  assumes "length (skuDataOf dat s) < 18 \<or>
           (\<exists>w. testWindow fsm = Inr w \<and> length (trainDataOf w (skuDataOf dat s)) < 6)"
  shows "s \<notin> fst ` set (skuMethodForecasts (backtestFor st dat fsm skus)) \<and>
         skuMethodForecasts (backtestFor st dat fsm skus) =
           skuMethodForecasts (backtestFor st dat fsm (removeAll s skus)) \<and>
         methodMetrics (backtestFor st dat fsm skus) =
           methodMetrics (backtestFor st dat fsm (removeAll s skus))"
proof (cases "length dat < 18")
  case True
  then show ?thesis by (simp add: backtestFor_core)
next
  case long: False
  show ?thesis
  proof (cases "testWindow fsm")
    case (Inl e)
    with long show ?thesis by (simp add: backtestFor_core)
  next
    case (Inr w)
    with assms have skip: "skuBacktest st dat w s = Inr None"
      by (auto intro: skuBacktest_insufficient)
    note eq = phase1_skip [OF skip, of skus "[]"]
    have f: "skuMethodForecasts (backtestFor st dat fsm ks) =
               (case phase1 st dat w ks [] of Inl e \<Rightarrow> [] | Inr smf \<Rightarrow> smf)" for ks
      using long Inr by (simp add: backtestFor_core)
    have m: "methodMetrics (backtestFor st dat fsm ks) =
               (case phase1 st dat w ks [] of
                  Inl e \<Rightarrow> []
                | Inr smf \<Rightarrow> if smf = [] then [] else phase2 w smf)" for ks
      using long Inr by (simp add: backtestFor_core)
    have "s \<notin> fst ` set (skuMethodForecasts (backtestFor st dat fsm skus))"
    proof (cases "phase1 st dat w skus []")
      case (Inl e)
      then show ?thesis by (simp add: f)
    next
      case smf: (Inr smf)
      from phase1_keys [OF smf skip] have "s \<notin> fst ` set smf" by simp
      with smf show ?thesis by (simp add: f)
    qed
    moreover have "skuMethodForecasts (backtestFor st dat fsm skus) =
        skuMethodForecasts (backtestFor st dat fsm (removeAll s skus))"
      by (simp only: f eq)
    moreover have "methodMetrics (backtestFor st dat fsm skus) =
        methodMetrics (backtestFor st dat fsm (removeAll s skus))"
      by (simp only: m eq)
    ultimately show ?thesis by (intro conjI)
  qed
qed

theorem backtest_skips_insufficient_witness:
  "length (skuDataOf exampleHistory ''SKU-B'') = 5 \<and>
   ''SKU-B'' \<notin> fst ` set (skuMethodForecasts
      (backtestFor exampleSettings exampleHistory ''2025-01-01'' [''SKU-A'', ''SKU-B''])) \<and>
   map fst (skuMethodForecasts
      (backtestFor exampleSettings exampleHistory ''2025-01-01'' [''SKU-A'', ''SKU-B''])) =
     [''SKU-A''] \<and>
   methodMetrics (backtestFor exampleSettings exampleHistory ''2025-01-01'' [''SKU-A'', ''SKU-B'']) =
     methodMetrics (backtestFor exampleSettings exampleHistory ''2025-01-01'' [''SKU-A''])"
proof -
  have n: "length (skuDataOf exampleHistory ''SKU-B'') = 5"
    using ex_lengths by (simp add: ex_skuB)
  then have h: "length (skuDataOf exampleHistory ''SKU-B'') < 18 \<or>
      (\<exists>w. testWindow ''2025-01-01'' = Inr w \<and>
           length (trainDataOf w (skuDataOf exampleHistory ''SKU-B'')) < 6)"
    by simp
  have ra: "removeAll ''SKU-B'' [''SKU-A'', ''SKU-B''] = [''SKU-A'']"
    by simp
  note t = backtest_skips_insufficient [OF h, of exampleSettings "[''SKU-A'', ''SKU-B'']",
      unfolded ra]
  from ex_run have k: "map fst (skuMethodForecasts
      (backtestFor exampleSettings exampleHistory ''2025-01-01'' [''SKU-A''])) = [''SKU-A'']"
    by (elim conjE)
  show ?thesis
  proof (intro conjI)
    show "length (skuDataOf exampleHistory ''SKU-B'') = 5" by (rule n)
    show "''SKU-B'' \<notin> fst ` set (skuMethodForecasts
      (backtestFor exampleSettings exampleHistory ''2025-01-01'' [''SKU-A'', ''SKU-B'']))"
      by (rule t [THEN conjunct1])
    show "map fst (skuMethodForecasts
      (backtestFor exampleSettings exampleHistory ''2025-01-01'' [''SKU-A'', ''SKU-B''])) =
     [''SKU-A'']"
      by (simp only: t [THEN conjunct2, THEN conjunct1] k)
    show "methodMetrics (backtestFor exampleSettings exampleHistory ''2025-01-01''
        [''SKU-A'', ''SKU-B'']) =
      methodMetrics (backtestFor exampleSettings exampleHistory ''2025-01-01'' [''SKU-A''])"
      by (rule t [THEN conjunct2, THEN conjunct2])
  qed
qed


section \<open>Backtest: the months that are scored\<close>

text \<open>
  Claim C2 says that only the pairs of the last 6 months of the test period enter the
  metrics of a method. In the example every method is scored on 12 pairs, one for each
  month from January to December 2024: the slice keeps every forecast date from the
  start of the test period to its end, the first 6 months too.
\<close>

theorem backtest_scores_whole_window:
  "testWindowStart (backtestResults exampleSettings exampleHistory ''2025-01-01'' [''SKU-A'']) =
     ''2024-01-01'' \<and>
   testWindowEnd (backtestResults exampleSettings exampleHistory ''2025-01-01'' [''SKU-A'']) =
     ''2024-12-01'' \<and>
   map fst (skuMethodForecasts
     (backtestResults exampleSettings exampleHistory ''2025-01-01'' [''SKU-A''])) = [''SKU-A''] \<and>
   list_all (\<lambda>e. map fst (snd e) = allMethods \<and>
                  list_all (\<lambda>md. filter (inTestWindow (''2024-01-01'', ''2024-12-01''))
                                     (dates (snd md)) =
                     [''2024-01-01'', ''2024-02-01'', ''2024-03-01'', ''2024-04-01'',
                      ''2024-05-01'', ''2024-06-01'', ''2024-07-01'', ''2024-08-01'',
                      ''2024-09-01'', ''2024-10-01'', ''2024-11-01'', ''2024-12-01''])
                    (snd e))
     (skuMethodForecasts
       (backtestResults exampleSettings exampleHistory ''2025-01-01'' [''SKU-A''])) \<and>
   map (\<lambda>m. length (methodPairs (''2024-01-01'', ''2024-12-01'')
                (skuMethodForecasts
                  (backtestResults exampleSettings exampleHistory ''2025-01-01'' [''SKU-A''])) m))
     allMethods = [12, 12, 12, 12] \<and>
   methodMetrics (backtestResults exampleSettings exampleHistory ''2025-01-01'' [''SKU-A'']) =
     map (\<lambda>m. (m, metricsOf (methodPairs (''2024-01-01'', ''2024-12-01'')
                (skuMethodForecasts
                  (backtestResults exampleSettings exampleHistory ''2025-01-01'' [''SKU-A''])) m)))
       allMethods"
proof -
  have b: "backtestResults exampleSettings exampleHistory ''2025-01-01'' [''SKU-A''] =
           backtestFor exampleSettings exampleHistory ''2025-01-01'' [''SKU-A'']"
    by (simp add: backtestResults_def)
  have w: "(''2024-01-01'', ''2024-12-01'') = exampleWindow"
    by (simp add: exampleWindow_def)
  show ?thesis
    unfolding b w ex_months_2024 [symmetric] by (rule ex_run)
qed


end
